theory Spec2Isabelle
  imports Complex_Main
begin

section \<open>Data model of swmm_layer_builder.py\<close>

text \<open>
  Python values that occur as attribute values and as defaults: \<open>None\<close> (also the
  value a host layer returns for a NULL attribute), \<open>str\<close>, \<open>int\<close>, \<open>float\<close> and
  \<open>bool\<close>. The builder never computes with a value, it only compares it with
  \<open>None\<close> and \<open>''\<close> and passes it on, so a float is carried as the number its
  literal denotes.
\<close>

datatype pyval = PyNone | PyStr string | PyInt int | PyFloat real | PyBool bool

text \<open>
  The exceptions the module can raise: \<open>QgsProcessingException\<close> with its message,
  \<open>KeyError\<close> of a dictionary subscript or a feature subscript, and
  \<open>ZeroDivisionError\<close> of the progress quotient.
\<close>

datatype error = QgsProcessingException string | KeyError string | ZeroDivisionError

text \<open>The \<open>QVariant\<close> types that \<open>type_map\<close> of \<open>processAlgorithm\<close> can produce.\<close>

datatype qvariant = QDouble | QString | QInt | QBool | QDate | QTime

text \<open>
  An input feature: its fields with their values, in field order
  (\<open>feature.fields().names()\<close> is the list of first components), and its geometry,
  which the builder treats as an opaque value of type \<open>'g\<close>.
\<close>

record 'g feature =
  f_attributes :: "(string \<times> pyval) list"
  f_geometry :: 'g

text \<open>
  The input layer: \<open>fields().names()\<close>, \<open>featureCount()\<close> (the host's answer, an
  integer that need not be the number of features delivered) and the features that
  \<open>getFeatures()\<close> delivers, in delivery order.
\<close>

record 'g vector_layer =
  layer_field_names :: "string list"
  featureCount :: int
  getFeatures :: "'g feature list"

text \<open>
  An output feature: \<open>QgsFeature(target_fields)\<close> followed by \<open>setGeometry\<close> and
  \<open>setAttributes\<close>.
\<close>

record 'g out_feature =
  o_fields :: "(string \<times> qvariant) list"
  o_geometry :: 'g
  o_attributes :: "pyval list"

text \<open>
  What the host answers during one run: \<open>parameterAsVectorLayer\<close> for the input
  layer, \<open>parameterAsString\<close> per parameter id, \<open>parameterAsSink\<close> for the target
  fields (\<open>None\<close> when no sink could be created, the destination id otherwise) and
  \<open>feedback.isCanceled()\<close> at the check made in iteration \<open>idx\<close>.
\<close>

record 'g host =
  parameterAsVectorLayer :: "'g vector_layer option"
  parameterAsString :: "string \<Rightarrow> string"
  parameterAsSink :: "(string \<times> qvariant) list \<Rightarrow> string option"
  isCanceled :: "nat \<Rightarrow> bool"

text \<open>
  The effects of a run: the features handed to \<open>sink.addFeature\<close>, oldest first, and
  the calls of \<open>feedback.setProgress\<close>. A progress call is recorded by the operands
  \<open>(idx + 1, total)\<close> of its quotient, since the floating-point value
  \<open>int((idx + 1) / total * 100)\<close> is outside this model.
\<close>

record 'g world =
  sink :: "'g out_feature list"
  progress :: "(nat \<times> int) list"

text \<open>
  \<open>def_qgis_fields_dict\<close> is imported from \<open>g_s_defaults\<close>; it is a parameter of every
  definition that reads it: a dictionary from section name to the ordered items
  \<open>(field name, type name)\<close> of that section's dictionary.
\<close>

type_synonym registry = "string \<rightharpoonup> (string \<times> string) list"

section \<open>The functions of SwmmLayerBuilderAlgorithm\<close>

text \<open>\<open>d.get(k)\<close> on a dictionary given by its items: \<open>None\<close> for a missing key.\<close>

definition dict_get :: "(string \<times> pyval) list \<Rightarrow> string \<Rightarrow> pyval" where
  "dict_get d k = (case map_of d k of None \<Rightarrow> PyNone | Some v \<Rightarrow> v)"

text \<open>\<open>feature[field_name]\<close>: the value of the first field of that name, else \<open>KeyError\<close>.\<close>

definition feature_getitem :: "'g feature \<Rightarrow> string \<Rightarrow> error + pyval" where
  "feature_getitem feature field_name =
     (case map_of (f_attributes feature) field_name of
        None \<Rightarrow> Inl (KeyError field_name)
      | Some val \<Rightarrow> Inr val)"

text \<open>
  \<open>_value_from_feature\<close>. The selection \<open>field_name\<close> is \<open>None\<close> (no entry in
  \<open>field_map\<close>) or a string; it is truthy when it is a non-empty string.
\<close>

definition value_from_feature :: "'g feature \<Rightarrow> string option \<Rightarrow> pyval \<Rightarrow> error + pyval" where
  "value_from_feature feature field_name default_val =
     (case field_name of
        None \<Rightarrow> Inr default_val
      | Some fn \<Rightarrow>
          if fn \<noteq> [] \<and> fn \<in> set (map fst (f_attributes feature)) then
            (case feature_getitem feature fn of
               Inl e \<Rightarrow> Inl e
             | Inr val \<Rightarrow> if val \<notin> set [PyNone, PyStr []] then Inr val else Inr default_val)
          else Inr default_val)"

text \<open>\<open>_defaults_for_section\<close>, with the section tests in the order of the source.\<close>

definition defaults_for_section :: "registry \<Rightarrow> string \<Rightarrow> error + (string \<times> pyval) list" where
  "defaults_for_section def_qgis_fields_dict section =
    (if section = ''SUBCATCHMENTS'' then Inr
       [(''Name'', PyStr ''''), (''RainGage'', PyStr ''*''), (''Outlet'', PyStr ''''),
        (''Area'', PyInt 0), (''Imperv'', PyInt 0), (''Width'', PyInt 0),
        (''Slope'', PyFloat 0.5), (''CurbLen'', PyInt 0), (''SnowPack'', PyStr ''''),
        (''N_Imperv'', PyFloat 0.01), (''N_Perv'', PyFloat 0.1), (''S_Imperv'', PyFloat 1.8),
        (''S_Perv'', PyInt 3), (''PctZero'', PyInt 0), (''RouteTo'', PyStr ''OUTLET''),
        (''PctRouted'', PyInt 100), (''InfMethod'', PyStr ''''), (''SuctHead'', PyNone),
        (''Conductiv'', PyNone), (''InitDef'', PyNone), (''MaxRate'', PyNone),
        (''MinRate'', PyNone), (''Decay'', PyNone), (''DryTime'', PyNone),
        (''MaxInf'', PyNone), (''CurveNum'', PyNone)]
     else if section = ''JUNCTIONS'' then Inr
       [(''Name'', PyStr ''''), (''Elevation'', PyInt 0), (''MaxDepth'', PyInt 0),
        (''InitDepth'', PyInt 0), (''SurDepth'', PyInt 0), (''Aponded'', PyInt 0)]
     else if section = ''OUTFALLS'' then Inr
       [(''Name'', PyStr ''''), (''Elevation'', PyInt 0), (''Type'', PyStr ''FREE''),
        (''FixedStage'', PyNone), (''Curve_TS'', PyStr ''''), (''FlapGate'', PyStr ''''),
        (''RouteTo'', PyStr '''')]
     else if section = ''RAINGAGES'' then Inr
       [(''Name'', PyStr ''''), (''Format'', PyStr ''''), (''Interval'', PyStr ''''),
        (''SCF'', PyFloat 1.0), (''DataSource'', PyStr ''''), (''SeriesName'', PyStr ''''),
        (''FileName'', PyStr ''''), (''StationID'', PyStr ''''), (''RainUnits'', PyStr '''')]
     else if section = ''STORAGE'' then
       (case def_qgis_fields_dict ''STORAGE'' of
          None \<Rightarrow> Inl (KeyError ''STORAGE'')
        | Some items \<Rightarrow>
            Inr (map (\<lambda>(k, v). (k, if v = ''Double'' then PyInt 0 else PyStr '''')) items))
     else if section = ''CONDUITS'' then Inr
       [(''Name'', PyStr ''''), (''FromNode'', PyStr ''''), (''ToNode'', PyStr ''''),
        (''Length'', PyInt 0), (''Roughness'', PyFloat 0.01), (''InOffset'', PyInt 0),
        (''OutOffset'', PyInt 0), (''InitFlow'', PyInt 0), (''MaxFlow'', PyInt 0),
        (''XsectShape'', PyStr ''''), (''Geom1'', PyInt 0), (''Geom2'', PyInt 0),
        (''Geom3'', PyInt 0), (''Geom4'', PyInt 0), (''Barrels'', PyInt 1),
        (''Culvert'', PyStr ''''), (''Shp_Trnsct'', PyStr ''''), (''Kentry'', PyInt 0),
        (''Kexit'', PyInt 0), (''Kavg'', PyInt 0), (''FlapGate'', PyStr ''''),
        (''Seepage'', PyInt 0)]
     else if section = ''ORIFICES'' then Inr
       [(''Name'', PyStr ''''), (''FromNode'', PyStr ''''), (''ToNode'', PyStr ''''),
        (''Type'', PyStr ''''), (''InOffset'', PyInt 0), (''Qcoeff'', PyInt 0),
        (''FlapGate'', PyStr ''''), (''CloseTime'', PyInt 0), (''XsectShape'', PyStr ''''),
        (''Height'', PyInt 0), (''Width'', PyInt 0)]
     else if section = ''PUMPS'' then Inr
       [(''Name'', PyStr ''''), (''FromNode'', PyStr ''''), (''ToNode'', PyStr ''''),
        (''PumpCurve'', PyStr ''''), (''Status'', PyStr ''''), (''Startup'', PyInt 0),
        (''Shutoff'', PyInt 0)]
     else if section = ''WEIRS'' then Inr
       [(''Name'', PyStr ''''), (''FromNode'', PyStr ''''), (''ToNode'', PyStr ''''),
        (''Type'', PyStr ''''), (''CrestHeigh'', PyInt 0), (''Qcoeff'', PyInt 0),
        (''FlapGate'', PyStr ''''), (''EndContrac'', PyInt 0), (''EndCoeff'', PyInt 0),
        (''Surcharge'', PyStr ''''), (''RoadWidth'', PyInt 0), (''RoadSurf'', PyStr ''''),
        (''CoeffCurve'', PyStr ''''), (''Height'', PyInt 0), (''Length'', PyInt 0),
        (''SideSlope'', PyInt 0)]
     else
       (case def_qgis_fields_dict section of
          None \<Rightarrow> Inl (KeyError section)
        | Some items \<Rightarrow> Inr (map (\<lambda>(k, v). (k, PyNone)) items)))"

text \<open>
  \<open>_field_definitions\<close>: the mapping slots of a section as tuples
  \<open>(param_id, label, target_field, required)\<close>.
\<close>

definition field_definitions :: "string \<Rightarrow> (string \<times> string \<times> string \<times> bool) list" where
  "field_definitions section =
    (if section = ''JUNCTIONS'' then
       [(''NAME_FIELD'', ''Name field'', ''Name'', True),
        (''ELEV_FIELD'', ''Elevation field'', ''Elevation'', True),
        (''MAXDEPTH_FIELD'', ''MaxDepth field'', ''MaxDepth'', True),
        (''INITDEPTH_FIELD'', ''InitDepth field'', ''InitDepth'', False),
        (''SURDEPTH_FIELD'', ''SurDepth field'', ''SurDepth'', False),
        (''APONDED_FIELD'', ''Aponded field'', ''Aponded'', False)]
     else if section = ''OUTFALLS'' then
       [(''NAME_FIELD'', ''Name field'', ''Name'', True),
        (''ELEV_FIELD'', ''Elevation field'', ''Elevation'', True),
        (''TYPE_FIELD'', ''Type field'', ''Type'', True),
        (''FIXED_FIELD'', ''FixedStage field'', ''FixedStage'', False),
        (''CURVE_FIELD'', ''Curve_TS field'', ''Curve_TS'', False),
        (''FLAP_FIELD'', ''FlapGate field'', ''FlapGate'', False),
        (''ROUTETO_FIELD'', ''RouteTo field'', ''RouteTo'', False)]
     else if section = ''RAINGAGES'' then
       [(''NAME_FIELD'', ''Name field'', ''Name'', True),
        (''FORMAT_FIELD'', ''Format field'', ''Format'', True),
        (''INTERVAL_FIELD'', ''Interval field'', ''Interval'', True),
        (''SCF_FIELD'', ''SCF field'', ''SCF'', False),
        (''DATASRC_FIELD'', ''DataSource field'', ''DataSource'', False),
        (''SERIES_FIELD'', ''SeriesName field'', ''SeriesName'', False),
        (''FILE_FIELD'', ''FileName field'', ''FileName'', False),
        (''STATION_FIELD'', ''StationID field'', ''StationID'', False),
        (''RAINUNITS_FIELD'', ''RainUnits field'', ''RainUnits'', False)]
     else if section = ''STORAGE'' then
       [(''NAME_FIELD'', ''Name field'', ''Name'', True),
        (''ELEV_FIELD'', ''Elevation field'', ''Elevation'', True),
        (''MAXDEPTH_FIELD'', ''MaxDepth field'', ''MaxDepth'', True),
        (''INITDEPTH_FIELD'', ''InitDepth field'', ''InitDepth'', False),
        (''TYPE_FIELD'', ''Type field'', ''Type'', False),
        (''CURVE_FIELD'', ''Curve field'', ''Curve'', False),
        (''COEFF_FIELD'', ''Coeff field'', ''Coeff'', False),
        (''EXP_FIELD'', ''Exponent field'', ''Exponent'', False),
        (''CONST_FIELD'', ''Constant field'', ''Constant'', False),
        (''MAJORAX_FIELD'', ''MajorAxis field'', ''MajorAxis'', False),
        (''MINORAX_FIELD'', ''MinorAxis field'', ''MinorAxis'', False),
        (''SIDESLOPE_FIELD'', ''SideSlope field'', ''SideSlope'', False),
        (''SURFHEIGHT_FIELD'', ''SurfHeight field'', ''SurfHeight'', False),
        (''SURDEPTH_FIELD'', ''SurDepth field'', ''SurDepth'', False),
        (''FEVAP_FIELD'', ''Fevap field'', ''Fevap'', False),
        (''PSI_FIELD'', ''Psi field'', ''Psi'', False),
        (''KSAT_FIELD'', ''Ksat field'', ''Ksat'', False),
        (''IMD_FIELD'', ''IMD field'', ''IMD'', False)]
     else if section = ''CONDUITS'' then
       [(''NAME_FIELD'', ''Name field'', ''Name'', True),
        (''FROM_FIELD'', ''FromNode field'', ''FromNode'', True),
        (''TO_FIELD'', ''ToNode field'', ''ToNode'', True),
        (''LENGTH_FIELD'', ''Length field'', ''Length'', True),
        (''ROUGH_FIELD'', ''Roughness field'', ''Roughness'', False),
        (''INOFF_FIELD'', ''InOffset field'', ''InOffset'', False),
        (''OUTOFF_FIELD'', ''OutOffset field'', ''OutOffset'', False),
        (''INITFLOW_FIELD'', ''InitFlow field'', ''InitFlow'', False),
        (''MAXFLOW_FIELD'', ''MaxFlow field'', ''MaxFlow'', False),
        (''XSECTSHAPE_FIELD'', ''XsectShape field'', ''XsectShape'', False),
        (''GEOM1_FIELD'', ''Geom1 field'', ''Geom1'', False),
        (''GEOM2_FIELD'', ''Geom2 field'', ''Geom2'', False),
        (''GEOM3_FIELD'', ''Geom3 field'', ''Geom3'', False),
        (''GEOM4_FIELD'', ''Geom4 field'', ''Geom4'', False),
        (''BARRELS_FIELD'', ''Barrels field'', ''Barrels'', False),
        (''CULVERT_FIELD'', ''Culvert field'', ''Culvert'', False),
        (''SHPTRNS_FIELD'', ''Shp_Trnsct field'', ''Shp_Trnsct'', False),
        (''KENTRY_FIELD'', ''Kentry field'', ''Kentry'', False),
        (''KEXIT_FIELD'', ''Kexit field'', ''Kexit'', False),
        (''KAVG_FIELD'', ''Kavg field'', ''Kavg'', False),
        (''FLAP_FIELD'', ''FlapGate field'', ''FlapGate'', False),
        (''SEEP_FIELD'', ''Seepage field'', ''Seepage'', False)]
     else if section = ''ORIFICES'' then
       [(''NAME_FIELD'', ''Name field'', ''Name'', True),
        (''FROM_FIELD'', ''FromNode field'', ''FromNode'', True),
        (''TO_FIELD'', ''ToNode field'', ''ToNode'', True),
        (''TYPE_FIELD'', ''Type field'', ''Type'', True),
        (''INOFF_FIELD'', ''InOffset field'', ''InOffset'', False),
        (''QCOEFF_FIELD'', ''Qcoeff field'', ''Qcoeff'', False),
        (''FLAP_FIELD'', ''FlapGate field'', ''FlapGate'', False),
        (''CLOSETIME_FIELD'', ''CloseTime field'', ''CloseTime'', False),
        (''XSECTSHAPE_FIELD'', ''XsectShape field'', ''XsectShape'', False),
        (''HEIGHT_FIELD'', ''Height field'', ''Height'', False),
        (''WIDTH_FIELD'', ''Width field'', ''Width'', False)]
     else if section = ''PUMPS'' then
       [(''NAME_FIELD'', ''Name field'', ''Name'', True),
        (''FROM_FIELD'', ''FromNode field'', ''FromNode'', True),
        (''TO_FIELD'', ''ToNode field'', ''ToNode'', True),
        (''CURVE_FIELD'', ''PumpCurve field'', ''PumpCurve'', True),
        (''STATUS_FIELD'', ''Status field'', ''Status'', False),
        (''STARTUP_FIELD'', ''Startup field'', ''Startup'', False),
        (''SHUTOFF_FIELD'', ''Shutoff field'', ''Shutoff'', False)]
     else if section = ''WEIRS'' then
       [(''NAME_FIELD'', ''Name field'', ''Name'', True),
        (''FROM_FIELD'', ''FromNode field'', ''FromNode'', True),
        (''TO_FIELD'', ''ToNode field'', ''ToNode'', True),
        (''TYPE_FIELD'', ''Type field'', ''Type'', True),
        (''CREST_FIELD'', ''CrestHeigh field'', ''CrestHeigh'', False),
        (''QCOEFF_FIELD'', ''Qcoeff field'', ''Qcoeff'', False),
        (''FLAP_FIELD'', ''FlapGate field'', ''FlapGate'', False),
        (''ENDCONTR_FIELD'', ''EndContrac field'', ''EndContrac'', False),
        (''ENDCOEFF_FIELD'', ''EndCoeff field'', ''EndCoeff'', False),
        (''SURCH_FIELD'', ''Surcharge field'', ''Surcharge'', False),
        (''ROADWIDTH_FIELD'', ''RoadWidth field'', ''RoadWidth'', False),
        (''ROADSURF_FIELD'', ''RoadSurf field'', ''RoadSurf'', False),
        (''COEFFCURVE_FIELD'', ''CoeffCurve field'', ''CoeffCurve'', False),
        (''HEIGHT_FIELD'', ''Height field'', ''Height'', False),
        (''LENGTH_FIELD'', ''Length field'', ''Length'', False),
        (''SIDESLOPE_FIELD'', ''SideSlope field'', ''SideSlope'', False)]
     else [])"

text \<open>
  Lines 96 to 103 of \<open>processAlgorithm\<close>: the loop over \<open>self.field_params\<close> that fills
  the dictionary \<open>field_map\<close>. \<open>not param_val\<close> holds for the empty string.
\<close>

fun build_field_map ::
  "(string \<Rightarrow> string) \<Rightarrow> string list \<Rightarrow> (string \<times> string \<times> string \<times> bool) list \<Rightarrow>
   (string \<rightharpoonup> string) \<Rightarrow> (string \<rightharpoonup> string)" where
  "build_field_map param_string layer_names [] field_map = field_map"
| "build_field_map param_string layer_names ((param_id, label, target_field, required) # rest) field_map =
     (let param_val = param_string param_id;
          param_val = (if param_val = [] \<and> target_field \<in> set layer_names
                       then target_field else param_val)
      in build_field_map param_string layer_names rest (field_map(target_field \<mapsto> param_val)))"

text \<open>\<open>type_map\<close> and the loop of lines 114 to 116; \<open>type_map[typ]\<close> raises on an unknown type name.\<close>

definition type_map :: "string \<rightharpoonup> qvariant" where
  "type_map = map_of
     [(''Double'', QDouble), (''String'', QString), (''Int'', QInt),
      (''Bool'', QBool), (''Date'', QDate), (''Time'', QTime)]"

fun build_target_fields :: "(string \<times> string) list \<Rightarrow> error + (string \<times> qvariant) list" where
  "build_target_fields [] = Inr []"
| "build_target_fields ((name, typ) # rest) =
     (case type_map typ of
        None \<Rightarrow> Inl (KeyError typ)
      | Some t \<Rightarrow>
          (case build_target_fields rest of
             Inl e \<Rightarrow> Inl e
           | Inr tfs \<Rightarrow> Inr ((name, t) # tfs)))"

text \<open>The list comprehension of lines 133 to 136, over \<open>target_fields_def.keys()\<close>.\<close>

fun row_attrs ::
  "'g feature \<Rightarrow> (string \<rightharpoonup> string) \<Rightarrow> (string \<times> pyval) list \<Rightarrow> string list \<Rightarrow>
   error + pyval list" where
  "row_attrs feature field_map defaults [] = Inr []"
| "row_attrs feature field_map defaults (field # rest) =
     (case value_from_feature feature (field_map field) (dict_get defaults field) of
        Inl e \<Rightarrow> Inl e
      | Inr v \<Rightarrow>
          (case row_attrs feature field_map defaults rest of
             Inl e \<Rightarrow> Inl e
           | Inr vs \<Rightarrow> Inr (v # vs)))"

text \<open>
  The quotient \<open>(idx + 1) / total\<close> of line 145: \<open>ZeroDivisionError\<close> for a zero
  divisor, otherwise the operands that the progress call is recorded by.
\<close>

definition progress_quotient :: "nat \<Rightarrow> int \<Rightarrow> error + (nat \<times> int)" where
  "progress_quotient n total_count = (if total_count = 0 then Inl ZeroDivisionError else Inr (n, total_count))"

text \<open>
  The loop of lines 132 to 145 over the features still to come, \<open>idx\<close> being the index
  of the first of them. An exception leaves the loop with the effects made so far.
\<close>

fun feature_loop ::
  "(string \<times> qvariant) list \<Rightarrow> (string \<rightharpoonup> string) \<Rightarrow> (string \<times> pyval) list \<Rightarrow> string list \<Rightarrow>
   (nat \<Rightarrow> bool) \<Rightarrow> int \<Rightarrow> nat \<Rightarrow> 'g feature list \<Rightarrow> 'g world \<Rightarrow> (error + unit) \<times> 'g world" where
  "feature_loop target_fields field_map defaults keys canceled total_count idx [] w = (Inr (), w)"
| "feature_loop target_fields field_map defaults keys canceled total_count idx (feature # rest) w =
     (case row_attrs feature field_map defaults keys of
        Inl e \<Rightarrow> (Inl e, w)
      | Inr attrs \<Rightarrow>
          (let out_feat = \<lparr>o_fields = target_fields, o_geometry = f_geometry feature,
                           o_attributes = attrs\<rparr>;
               w1 = w\<lparr>sink := sink w @ [out_feat]\<rparr>
           in if canceled idx then (Inr (), w1)
              else if total_count \<noteq> 0 then
                (case progress_quotient (idx + 1) total_count of
                   Inl e \<Rightarrow> (Inl e, w1)
                 | Inr p \<Rightarrow>
                     feature_loop target_fields field_map defaults keys canceled total_count (idx + 1) rest
                       (w1\<lparr>progress := progress w1 @ [p]\<rparr>))
              else feature_loop target_fields field_map defaults keys canceled total_count (idx + 1) rest w1))"

text \<open>
  \<open>processAlgorithm\<close> for the algorithm built with \<open>section_key\<close>, whose
  \<open>field_params\<close> are \<open>_field_definitions(section_key)\<close>. The result is the raised
  exception or the destination id of the returned dictionary, with the effects made.
\<close>

definition processAlgorithm ::
  "registry \<Rightarrow> string \<Rightarrow> 'g host \<Rightarrow> 'g world \<Rightarrow> (error + string) \<times> 'g world" where
  "processAlgorithm def_qgis_fields_dict section_key h w =
     (case parameterAsVectorLayer h of
        None \<Rightarrow> (Inl (QgsProcessingException ''Input layer is required.''), w)
      | Some input_layer \<Rightarrow>
          (let field_map = build_field_map (parameterAsString h) (layer_field_names input_layer)
                             (field_definitions section_key) Map.empty
           in case def_qgis_fields_dict section_key of
                None \<Rightarrow> (Inl (KeyError section_key), w)
              | Some target_fields_def \<Rightarrow>
                  (case build_target_fields target_fields_def of
                     Inl e \<Rightarrow> (Inl e, w)
                   | Inr target_fields \<Rightarrow>
                       (case parameterAsSink h target_fields of
                          None \<Rightarrow> (Inl (QgsProcessingException ''Could not create output sink.''), w)
                        | Some dest_id \<Rightarrow>
                            (case defaults_for_section def_qgis_fields_dict section_key of
                               Inl e \<Rightarrow> (Inl e, w)
                             | Inr defaults \<Rightarrow>
                                 (case feature_loop target_fields field_map defaults
                                         (map fst target_fields_def) (isCanceled h)
                                         (featureCount input_layer) 0 (getFeatures input_layer) w of
                                    (Inl e, w') \<Rightarrow> (Inl e, w')
                                  | (Inr u, w') \<Rightarrow> (Inr dest_id, w')))))))"

section \<open>Example inputs\<close>

text \<open>
  Modelled from the spec: the \<open>JUNCTIONS\<close> entry of \<open>def_qgis_fields_dict\<close>
  (\<open>g_s_defaults\<close> is not among the sources). The field order is the one of the spec's
  JUNCTIONS scenario; the name is text and the five measures are real numbers.
\<close>

definition junctions_fields :: "(string \<times> string) list" where
  "junctions_fields =
     [(''Name'', ''String''), (''Elevation'', ''Double''), (''MaxDepth'', ''Double''),
      (''InitDepth'', ''Double''), (''SurDepth'', ''Double''), (''Aponded'', ''Double'')]"

text \<open>
  Modelled from the spec: a \<open>RAINGAGES\<close> entry of \<open>def_qgis_fields_dict\<close>, with the
  fields of the section's default table and \<open>SCF\<close> as the one real number.
\<close>

definition raingages_fields :: "(string \<times> string) list" where
  "raingages_fields =
     [(''Name'', ''String''), (''Format'', ''String''), (''Interval'', ''String''),
      (''SCF'', ''Double''), (''DataSource'', ''String''), (''SeriesName'', ''String''),
      (''FileName'', ''String''), (''StationID'', ''String''), (''RainUnits'', ''String'')]"

text \<open>
  A registry with these two sections, a \<open>STORAGE\<close> section and a section
  \<open>DIVIDERS\<close> for which \<open>_defaults_for_section\<close> has no table of its own.
\<close>

definition example_registry :: registry where
  "example_registry = map_of
     [(''JUNCTIONS'', junctions_fields),
      (''RAINGAGES'', raingages_fields),
      (''STORAGE'', [(''Name'', ''String''), (''Elevation'', ''Double''), (''Curve'', ''String'')]),
      (''DIVIDERS'', [(''Name'', ''String''), (''Elevation'', ''Double'')])]"

text \<open>A registry whose \<open>JUNCTIONS\<close> entry declares a field that the default table lacks.\<close>

definition tagged_registry :: registry where
  "tagged_registry = map_of [(''JUNCTIONS'', junctions_fields @ [(''Tag'', ''String'')])]"

text \<open>Host answers: no selection at all, a sink that is created or refused, cancellation.\<close>

definition no_selection :: "string \<Rightarrow> string" where
  "no_selection param_id = []"

definition sink_named :: "string \<Rightarrow> (string \<times> qvariant) list \<Rightarrow> string option" where
  "sink_named dest target_fields = Some dest"

definition sink_refused :: "(string \<times> qvariant) list \<Rightarrow> string option" where
  "sink_refused target_fields = None"

definition never_canceled :: "nat \<Rightarrow> bool" where
  "never_canceled idx = False"

definition canceled_from :: "nat \<Rightarrow> nat \<Rightarrow> bool" where
  "canceled_from k idx = (k \<le> idx)"

definition empty_world :: "string world" where
  "empty_world = \<lparr>sink = [], progress = []\<rparr>"

text \<open>
  The JUNCTIONS scenario: a layer whose fields are named after the target fields, one
  feature with \<open>{Elevation: 5.2, MaxDepth: '', InitDepth: None}\<close>, no selection made.
  Geometries are written as text.
\<close>

definition junction_feature :: "string feature" where
  "junction_feature =
     \<lparr>f_attributes = [(''Elevation'', PyFloat 5.2), (''MaxDepth'', PyStr []), (''InitDepth'', PyNone)],
      f_geometry = ''POINT(1 2)''\<rparr>"

definition junction_layer :: "string vector_layer" where
  "junction_layer =
     \<lparr>layer_field_names = [''Name'', ''Elevation'', ''MaxDepth'', ''InitDepth'', ''SurDepth'', ''Aponded''],
      featureCount = 1, getFeatures = [junction_feature]\<rparr>"

definition junction_host :: "string host" where
  "junction_host =
     \<lparr>parameterAsVectorLayer = Some junction_layer, parameterAsString = no_selection,
      parameterAsSink = sink_named ''junctions_out'', isCanceled = never_canceled\<rparr>"

text \<open>
  The RAINGAGES scenario: the operator maps \<open>SCF field\<close> to the column \<open>scf_factor\<close>
  and \<open>Name field\<close> to \<open>gauge\<close>; the first feature holds 0.8, the second null.
\<close>

definition raingage_choice :: "string \<Rightarrow> string" where
  "raingage_choice param_id =
     (if param_id = ''SCF_FIELD'' then ''scf_factor''
      else if param_id = ''NAME_FIELD'' then ''gauge'' else [])"

definition raingage_layer :: "string vector_layer" where
  "raingage_layer =
     \<lparr>layer_field_names = [''gauge'', ''scf_factor''], featureCount = 2,
      getFeatures =
        [\<lparr>f_attributes = [(''gauge'', PyStr ''RG1''), (''scf_factor'', PyFloat 0.8)],
          f_geometry = ''POINT(0 0)''\<rparr>,
         \<lparr>f_attributes = [(''gauge'', PyStr ''RG2''), (''scf_factor'', PyNone)],
          f_geometry = ''POINT(5 5)''\<rparr>]\<rparr>"

definition raingage_host :: "string host" where
  "raingage_host =
     \<lparr>parameterAsVectorLayer = Some raingage_layer, parameterAsString = raingage_choice,
      parameterAsSink = sink_named ''raingages_out'', isCanceled = never_canceled\<rparr>"

text \<open>Ten junction features and a host that reports cancellation from the third check on.\<close>

definition ten_layer :: "string vector_layer" where
  "ten_layer =
     \<lparr>layer_field_names = [''Elevation'', ''MaxDepth'', ''InitDepth''],
      featureCount = 10, getFeatures = replicate 10 junction_feature\<rparr>"

definition canceling_host :: "string host" where
  "canceling_host =
     \<lparr>parameterAsVectorLayer = Some ten_layer, parameterAsString = no_selection,
      parameterAsSink = sink_named ''partial_out'', isCanceled = canceled_from 2\<rparr>"

text \<open>Hosts without an input layer, without a sink, and with a layer of no features.\<close>

definition no_layer_host :: "string host" where
  "no_layer_host =
     \<lparr>parameterAsVectorLayer = None, parameterAsString = no_selection,
      parameterAsSink = sink_named ''junctions_out'', isCanceled = never_canceled\<rparr>"

definition no_sink_host :: "string host" where
  "no_sink_host =
     \<lparr>parameterAsVectorLayer = Some junction_layer, parameterAsString = no_selection,
      parameterAsSink = sink_refused, isCanceled = never_canceled\<rparr>"

definition empty_layer :: "string vector_layer" where
  "empty_layer =
     \<lparr>layer_field_names = [''Elevation'', ''MaxDepth'', ''InitDepth''],
      featureCount = 0, getFeatures = []\<rparr>"

definition empty_layer_host :: "string host" where
  "empty_layer_host =
     \<lparr>parameterAsVectorLayer = Some empty_layer, parameterAsString = no_selection,
      parameterAsSink = sink_named ''junctions_out'', isCanceled = never_canceled\<rparr>"

section \<open>The transform never raises; the shape of a run\<close>

lemma value_from_feature_Inr:
  "\<exists>v. value_from_feature f sel d = Inr v"
  by (auto simp: value_from_feature_def feature_getitem_def map_of_eq_None_iff
      split: option.splits sum.splits)

lemma row_attrs_Inr:
  "\<exists>vs. row_attrs f fm d ks = Inr vs \<and> length vs = length ks \<and>
     (\<forall>i<length ks. value_from_feature f (fm (ks ! i)) (dict_get d (ks ! i)) = Inr (vs ! i))"
proof (induction ks)
  case Nil
  show ?case by simp
next
  case (Cons k ks)
  then obtain vs where vs: "row_attrs f fm d ks = Inr vs" "length vs = length ks"
    "\<forall>i<length ks. value_from_feature f (fm (ks ! i)) (dict_get d (ks ! i)) = Inr (vs ! i)"
    by blast
  obtain v where v: "value_from_feature f (fm k) (dict_get d k) = Inr v"
    using value_from_feature_Inr by blast
  have "\<forall>i<length (k # ks). value_from_feature f (fm ((k # ks) ! i)) (dict_get d ((k # ks) ! i)) = Inr ((v # vs) ! i)"
    using v vs(3) by (auto simp: nth_Cons split: nat.splits)
  then show ?case using v vs by auto
qed

lemma build_target_fields_names:
  "build_target_fields items = Inr tf \<Longrightarrow> map fst tf = map fst items"
  by (induction items arbitrary: tf) (auto split: option.splits sum.splits)

lemma defaults_for_section_Inr:
  "reg sec = Some items \<Longrightarrow> \<exists>d. defaults_for_section reg sec = Inr d"
proof (cases "sec = ''STORAGE''")
  case True
  assume "reg sec = Some items"
  with True have "reg ''STORAGE'' = Some items" by simp
  with True show ?thesis by (simp add: defaults_for_section_def)
next
  case False
  assume "reg sec = Some items"
  with False show ?thesis by (simp add: defaults_for_section_def)
qed

lemma feature_loop_shape:
  "\<exists>outs w'. feature_loop tf fm d ks c t idx fs w = (Inr (), w') \<and> sink w' = sink w @ outs \<and>
     length outs \<le> length fs \<and>
     list_all2 (\<lambda>f out. o_fields out = tf \<and> o_geometry out = f_geometry f \<and>
                  row_attrs f fm d ks = Inr (o_attributes out)) (take (length outs) fs) outs"
proof (induction fs arbitrary: idx w)
  case Nil
  show ?case by simp
next
  case (Cons f fs)
  obtain vs where vs: "row_attrs f fm d ks = Inr vs"
    using row_attrs_Inr by blast
  define out where "out = \<lparr>o_fields = tf, o_geometry = f_geometry f, o_attributes = vs\<rparr>"
  define w1 where "w1 = w\<lparr>sink := sink w @ [out]\<rparr>"
  define w2 where "w2 = (if t \<noteq> 0 then w1\<lparr>progress := progress w1 @ [(idx + 1, t)]\<rparr> else w1)"
  have sink2: "sink w2 = sink w @ [out]"
    by (simp add: w2_def w1_def)
  have out_ok: "o_fields out = tf \<and> o_geometry out = f_geometry f \<and> row_attrs f fm d ks = Inr (o_attributes out)"
    by (simp add: out_def vs)
  show ?case
  proof (cases "c idx")
    case True
    then have "feature_loop tf fm d ks c t idx (f # fs) w = (Inr (), w1)"
      by (simp add: vs w1_def out_def)
    moreover have "sink w1 = sink w @ [out]" by (simp add: w1_def)
    ultimately show ?thesis using out_ok
      by (intro exI[of _ "[out]"] exI[of _ w1]) simp
  next
    case False
    then have step: "feature_loop tf fm d ks c t idx (f # fs) w = feature_loop tf fm d ks c t (idx + 1) fs w2"
      by (simp add: vs w2_def w1_def out_def progress_quotient_def)
    from Cons.IH[of "idx + 1" w2] obtain outs w' where IH:
      "feature_loop tf fm d ks c t (idx + 1) fs w2 = (Inr (), w')" "sink w' = sink w2 @ outs"
      "length outs \<le> length fs"
      "list_all2 (\<lambda>f out. o_fields out = tf \<and> o_geometry out = f_geometry f \<and>
                  row_attrs f fm d ks = Inr (o_attributes out)) (take (length outs) fs) outs"
      by blast
    show ?thesis using step IH out_ok sink2
      by (intro exI[of _ "out # outs"] exI[of _ w']) simp
  qed
qed

lemma feature_loop_step:
  assumes "row_attrs f fm d ks = Inr vs" "\<not> c idx"
  shows "feature_loop tf fm d ks c t idx (f # fs) w =
     feature_loop tf fm d ks c t (idx + 1) fs
       (if t \<noteq> 0
        then w\<lparr>sink := sink w @ [\<lparr>o_fields = tf, o_geometry = f_geometry f, o_attributes = vs\<rparr>],
               progress := progress w @ [(idx + 1, t)]\<rparr>
        else w\<lparr>sink := sink w @ [\<lparr>o_fields = tf, o_geometry = f_geometry f, o_attributes = vs\<rparr>]\<rparr>)"
  using assms by (simp add: Let_def progress_quotient_def)

lemma feature_loop_canceled_count:
  "k < length fs \<Longrightarrow> \<forall>j<k. \<not> c (idx + j) \<Longrightarrow> c (idx + k) \<Longrightarrow>
   length (sink (snd (feature_loop tf fm d ks c t idx fs w))) = length (sink w) + k + 1"
proof (induction fs arbitrary: idx w k)
  case Nil
  then show ?case by simp
next
  case (Cons f fs)
  obtain vs where vs: "row_attrs f fm d ks = Inr vs"
    using row_attrs_Inr by blast
  show ?case
  proof (cases k)
    case 0
    with Cons.prems show ?thesis by (simp add: vs)
  next
    case (Suc k')
    with Cons.prems have nc: "\<not> c idx" by force
    have a: "k' < length fs" using Cons.prems Suc by simp
    have b: "\<forall>j<k'. \<not> c (idx + 1 + j)" using Cons.prems(2) Suc by force
    have c': "c (idx + 1 + k')" using Cons.prems(3) Suc by simp
    show ?thesis
      unfolding feature_loop_step[where c = c, OF vs nc] Cons.IH[OF a b c'] Suc
      by simp
  qed
qed

lemma feature_loop_uncanceled_count:
  "\<forall>j<length fs. \<not> c (idx + j) \<Longrightarrow>
   length (sink (snd (feature_loop tf fm d ks c t idx fs w))) = length (sink w) + length fs"
proof (induction fs arbitrary: idx w)
  case Nil
  then show ?case by simp
next
  case (Cons f fs)
  obtain vs where vs: "row_attrs f fm d ks = Inr vs"
    using row_attrs_Inr by blast
  have nc: "\<not> c idx" using Cons.prems by force
  have b: "\<forall>j<length fs. \<not> c (idx + 1 + j)" using Cons.prems by force
  show ?case
    unfolding feature_loop_step[where c = c, OF vs nc] Cons.IH[OF b]
    by simp
qed

lemma process_setup_ok:
  assumes "parameterAsVectorLayer h = Some L" "reg sec = Some tfd"
    "build_target_fields tfd = Inr tf" "parameterAsSink h tf = Some dest"
  shows "\<exists>d. defaults_for_section reg sec = Inr d \<and>
    processAlgorithm reg sec h w =
      (Inr dest, snd (feature_loop tf
         (build_field_map (parameterAsString h) (layer_field_names L) (field_definitions sec) Map.empty)
         d (map fst tfd) (isCanceled h) (featureCount L) 0 (getFeatures L) w))"
proof -
  obtain d where d: "defaults_for_section reg sec = Inr d"
    using defaults_for_section_Inr assms(2) by blast
  let ?fm = "build_field_map (parameterAsString h) (layer_field_names L) (field_definitions sec) Map.empty"
  obtain w' where "feature_loop tf ?fm d (map fst tfd) (isCanceled h) (featureCount L) 0 (getFeatures L) w = (Inr (), w')"
    using feature_loop_shape by blast
  then show ?thesis using assms d
    by (simp add: processAlgorithm_def)
qed

lemma process_cases:
  "(\<exists>e. processAlgorithm reg sec h w = (Inl e, w)) \<or>
   (\<exists>L tfd tf dest. parameterAsVectorLayer h = Some L \<and> reg sec = Some tfd \<and>
      build_target_fields tfd = Inr tf \<and> parameterAsSink h tf = Some dest)"
proof (cases "parameterAsVectorLayer h")
  case None
  then show ?thesis by (simp add: processAlgorithm_def)
next
  case (Some L)
  note L = this
  show ?thesis
  proof (cases "reg sec")
    case None
    with L show ?thesis by (simp add: processAlgorithm_def)
  next
    case (Some tfd)
    note tfd = this
    show ?thesis
    proof (cases "build_target_fields tfd")
      case (Inl e)
      with L tfd show ?thesis by (simp add: processAlgorithm_def)
    next
      case (Inr tf)
      note tf = this
      show ?thesis
      proof (cases "parameterAsSink h tf")
        case None
        with L tfd tf show ?thesis by (simp add: processAlgorithm_def)
      next
        case (Some dest)
        with L tfd tf show ?thesis by blast
      qed
    qed
  qed
qed

lemma process_run:
  assumes "parameterAsVectorLayer h = Some L" "reg sec = Some tfd"
    "build_target_fields tfd = Inr tf" "parameterAsSink h tf = Some dest"
  shows "\<exists>d outs w'. defaults_for_section reg sec = Inr d \<and>
    processAlgorithm reg sec h w = (Inr dest, w') \<and> sink w' = sink w @ outs \<and>
    length outs \<le> length (getFeatures L) \<and>
    list_all2 (\<lambda>f out. o_fields out = tf \<and> o_geometry out = f_geometry f \<and>
        row_attrs f (build_field_map (parameterAsString h) (layer_field_names L)
                       (field_definitions sec) Map.empty) d (map fst tfd) = Inr (o_attributes out))
      (take (length outs) (getFeatures L)) outs"
proof -
  let ?fm = "build_field_map (parameterAsString h) (layer_field_names L) (field_definitions sec) Map.empty"
  obtain d where d: "defaults_for_section reg sec = Inr d"
    and run: "processAlgorithm reg sec h w =
      (Inr dest, snd (feature_loop tf ?fm d (map fst tfd) (isCanceled h) (featureCount L) 0 (getFeatures L) w))"
    using process_setup_ok[where reg = reg and sec = sec, OF assms] by blast
  obtain outs w' where loop:
    "feature_loop tf ?fm d (map fst tfd) (isCanceled h) (featureCount L) 0 (getFeatures L) w = (Inr (), w')"
    "sink w' = sink w @ outs" "length outs \<le> length (getFeatures L)"
    "list_all2 (\<lambda>f out. o_fields out = tf \<and> o_geometry out = f_geometry f \<and>
        row_attrs f ?fm d (map fst tfd) = Inr (o_attributes out))
      (take (length outs) (getFeatures L)) outs"
    using feature_loop_shape[of tf ?fm d "map fst tfd" "isCanceled h" "featureCount L" 0 "getFeatures L" w]
    by blast
  from run loop(1) have "processAlgorithm reg sec h w = (Inr dest, w')" by simp
  with d loop(2,3,4) show ?thesis by blast
qed

lemma row_attrs_nth:
  assumes "row_attrs f fm d ks = Inr vs"
  shows "length vs = length ks \<and>
    (\<forall>i<length ks. value_from_feature f (fm (ks ! i)) (dict_get d (ks ! i)) = Inr (vs ! i))"
  using row_attrs_Inr[of f fm d ks] assms by auto

lemma process_written:
  assumes run: "processAlgorithm reg sec h w = (r, w')"
    and L: "parameterAsVectorLayer h = Some L"
    and w': "sink w' = sink w @ outs"
    and j: "j < length outs"
  shows "\<exists>tfd tf dest d. reg sec = Some tfd \<and> build_target_fields tfd = Inr tf \<and>
      parameterAsSink h tf = Some dest \<and> defaults_for_section reg sec = Inr d \<and> r = Inr dest \<and>
      j < length (getFeatures L) \<and>
      o_fields (outs ! j) = tf \<and>
      o_geometry (outs ! j) = f_geometry (getFeatures L ! j) \<and>
      row_attrs (getFeatures L ! j)
          (build_field_map (parameterAsString h) (layer_field_names L) (field_definitions sec) Map.empty)
          d (map fst tfd) = Inr (o_attributes (outs ! j))"
proof -
  from process_cases[of reg sec h w]
  show ?thesis
  proof
    assume "\<exists>e. processAlgorithm reg sec h w = (Inl e, w)"
    with run have "w' = w" by auto
    with w' j show ?thesis by simp
  next
    assume "\<exists>L tfd tf dest. parameterAsVectorLayer h = Some L \<and> reg sec = Some tfd \<and>
      build_target_fields tfd = Inr tf \<and> parameterAsSink h tf = Some dest"
    then obtain tfd tf dest where tfd: "reg sec = Some tfd"
      and tf: "build_target_fields tfd = Inr tf" "parameterAsSink h tf = Some dest"
      by auto
    from process_run[where reg = reg and sec = sec, OF L tfd tf, of w] run w'
    obtain d where d: "defaults_for_section reg sec = Inr d" and r: "r = Inr dest"
      and len: "length outs \<le> length (getFeatures L)"
      and all: "list_all2 (\<lambda>f out. o_fields out = tf \<and> o_geometry out = f_geometry f \<and>
        row_attrs f (build_field_map (parameterAsString h) (layer_field_names L)
                       (field_definitions sec) Map.empty) d (map fst tfd) = Inr (o_attributes out))
      (take (length outs) (getFeatures L)) outs"
      by auto
    from list_all2_nthD2[OF all j] j len
    have "o_fields (outs ! j) = tf \<and>
      o_geometry (outs ! j) = f_geometry (getFeatures L ! j) \<and>
      row_attrs (getFeatures L ! j)
          (build_field_map (parameterAsString h) (layer_field_names L) (field_definitions sec) Map.empty)
          d (map fst tfd) = Inr (o_attributes (outs ! j))"
      by simp
    with tfd tf d r j len show ?thesis by auto
  qed
qed

lemma process_appends:
  "\<exists>outs. sink (snd (processAlgorithm reg sec h w)) = sink w @ outs"
proof -
  from process_cases[of reg sec h w]
  show ?thesis
  proof
    assume "\<exists>e. processAlgorithm reg sec h w = (Inl e, w)"
    then show ?thesis by auto
  next
    assume "\<exists>L tfd tf dest. parameterAsVectorLayer h = Some L \<and> reg sec = Some tfd \<and>
      build_target_fields tfd = Inr tf \<and> parameterAsSink h tf = Some dest"
    then obtain L tfd tf dest where L: "parameterAsVectorLayer h = Some L" and tfd: "reg sec = Some tfd"
      and tf: "build_target_fields tfd = Inr tf" "parameterAsSink h tf = Some dest"
      by auto
    from process_run[where reg = reg and sec = sec, OF L tfd tf, of w]
    show ?thesis by auto
  qed
qed

section \<open>The example runs, evaluated\<close>

lemma junction_run:
  "processAlgorithm example_registry ''JUNCTIONS'' junction_host empty_world =
     (Inr ''junctions_out'',
      \<lparr>sink = [\<lparr>o_fields = [(''Name'', QString), (''Elevation'', QDouble), (''MaxDepth'', QDouble),
                             (''InitDepth'', QDouble), (''SurDepth'', QDouble), (''Aponded'', QDouble)],
                 o_geometry = ''POINT(1 2)'',
                 o_attributes = [PyStr [], PyFloat 5.2, PyInt 0, PyInt 0, PyInt 0, PyInt 0]\<rparr>],
       progress = [(1, 1)]\<rparr>)"
  by (simp add: processAlgorithm_def example_registry_def junctions_fields_def junction_host_def
      junction_layer_def junction_feature_def empty_world_def no_selection_def sink_named_def
      never_canceled_def field_definitions_def defaults_for_section_def type_map_def
      value_from_feature_def feature_getitem_def dict_get_def progress_quotient_def)

lemma raingage_run:
  "processAlgorithm example_registry ''RAINGAGES'' raingage_host empty_world =
     (Inr ''raingages_out'',
      \<lparr>sink =
         [\<lparr>o_fields = [(''Name'', QString), (''Format'', QString), (''Interval'', QString),
                      (''SCF'', QDouble), (''DataSource'', QString), (''SeriesName'', QString),
                      (''FileName'', QString), (''StationID'', QString), (''RainUnits'', QString)],
           o_geometry = ''POINT(0 0)'',
           o_attributes = [PyStr ''RG1'', PyStr [], PyStr [], PyFloat 0.8, PyStr [],
                           PyStr [], PyStr [], PyStr [], PyStr []]\<rparr>,
          \<lparr>o_fields = [(''Name'', QString), (''Format'', QString), (''Interval'', QString),
                      (''SCF'', QDouble), (''DataSource'', QString), (''SeriesName'', QString),
                      (''FileName'', QString), (''StationID'', QString), (''RainUnits'', QString)],
           o_geometry = ''POINT(5 5)'',
           o_attributes = [PyStr ''RG2'', PyStr [], PyStr [], PyFloat 1.0, PyStr [],
                           PyStr [], PyStr [], PyStr [], PyStr []]\<rparr>],
       progress = [(1, 2), (2, 2)]\<rparr>)"
  by (simp add: processAlgorithm_def example_registry_def raingages_fields_def raingage_host_def
      raingage_layer_def raingage_choice_def empty_world_def sink_named_def
      never_canceled_def field_definitions_def defaults_for_section_def type_map_def
      value_from_feature_def feature_getitem_def dict_get_def progress_quotient_def)

lemma row_attrs_map:
  "row_attrs f fm d ks = Inr vs \<Longrightarrow>
   map (\<lambda>field. value_from_feature f (fm field) (dict_get d field)) ks = map Inr vs"
  by (induction ks arbitrary: vs) (auto split: sum.splits)

lemma value_from_feature_selected:
  assumes "fn \<noteq> []" "map_of (f_attributes f) fn = Some v" "v \<noteq> PyNone" "v \<noteq> PyStr []"
  shows "value_from_feature f (Some fn) dv = Inr v"
proof -
  from assms(2) have "fn \<in> fst ` set (f_attributes f)"
    using map_of_eq_None_iff[of "f_attributes f" fn] by auto
  with assms show ?thesis
    by (simp add: value_from_feature_def feature_getitem_def)
qed

lemma value_from_feature_default:
  assumes "sel = None \<or> sel = Some [] \<or>
     (\<exists>fn. sel = Some fn \<and> fn \<notin> fst ` set (f_attributes f)) \<or>
     (\<exists>fn. sel = Some fn \<and> map_of (f_attributes f) fn = Some PyNone) \<or>
     (\<exists>fn. sel = Some fn \<and> map_of (f_attributes f) fn = Some (PyStr []))"
  shows "value_from_feature f sel dv = Inr dv"
  using assms
  by (auto simp: value_from_feature_def feature_getitem_def split: option.splits)

lemma raingage_selection:
  "build_field_map raingage_choice [''gauge'', ''scf_factor''] (field_definitions ''RAINGAGES'')
     Map.empty ''SCF'' = Some ''scf_factor''"
  by (simp add: field_definitions_def raingage_choice_def)

lemma build_field_map_other:
  "tf \<notin> set (map (\<lambda>(pid, lbl, t, req). t) slots) \<Longrightarrow>
   build_field_map ps names slots m tf = m tf"
  by (induction slots arbitrary: m) (auto simp: Let_def)

lemma build_field_map_lookup:
  "distinct (map (\<lambda>(pid, lbl, t, req). t) slots) \<Longrightarrow> (pid, lbl, tf, req) \<in> set slots \<Longrightarrow>
   build_field_map ps names slots m tf =
     Some (if ps pid = [] \<and> tf \<in> set names then tf else ps pid)"
proof (induction slots arbitrary: m)
  case Nil
  then show ?case by simp
next
  case (Cons s slots)
  obtain pid' lbl' tf' req' where s: "s = (pid', lbl', tf', req')"
    by (cases s) auto
  show ?case
  proof (cases "(pid, lbl, tf, req) = s")
    case True
    with s have eq: "pid' = pid" "tf' = tf" by auto
    from Cons.prems(1) s eq have "tf \<notin> set (map (\<lambda>(pid, lbl, t, req). t) slots)"
      by simp
    from build_field_map_other[OF this] s eq show ?thesis
      by (simp add: Let_def)
  next
    case False
    with Cons.prems(2) have mem: "(pid, lbl, tf, req) \<in> set slots" by simp
    from Cons.prems(1) have dis: "distinct (map (\<lambda>(pid, lbl, t, req). t) slots)" by simp
    from Cons.IH[OF dis mem] s show ?thesis
      by (simp add: Let_def)
  qed
qed

lemma field_definitions_distinct:
  "distinct (map (\<lambda>(pid, lbl, t, req). t) (field_definitions sec))"
  by (simp add: field_definitions_def)

lemma process_error_kind:
  assumes "processAlgorithm reg sec h w = (Inl e, w')"
  shows "w' = w \<and> ((\<exists>m. e = QgsProcessingException m) \<or> (\<exists>k. e = KeyError k))"
proof (cases "parameterAsVectorLayer h")
  case None
  with assms show ?thesis by (auto simp: processAlgorithm_def)
next
  case (Some L)
  note L = this
  show ?thesis
  proof (cases "reg sec")
    case None
    with L assms show ?thesis by (auto simp: processAlgorithm_def)
  next
    case (Some tfd)
    note tfd = this
    show ?thesis
    proof (cases "build_target_fields tfd")
      case (Inl e')
      have "\<exists>k. e' = KeyError k" if "build_target_fields items = Inl e'" for items
        using that by (induction items) (auto split: option.splits sum.splits)
      with Inl L tfd assms show ?thesis by (auto simp: processAlgorithm_def)
    next
      case (Inr tf)
      note tf = this
      show ?thesis
      proof (cases "parameterAsSink h tf")
        case None
        with L tfd tf assms show ?thesis by (auto simp: processAlgorithm_def)
      next
        case (Some dest)
        from process_run[where reg = reg and sec = sec, OF L tfd tf Some, of w] assms
        show ?thesis by auto
      qed
    qed
  qed
qed

lemma process_canceled_count:
  assumes L: "parameterAsVectorLayer h = Some L"
    and tfd: "reg sec = Some tfd"
    and tf: "build_target_fields tfd = Inr tf"
    and dest: "parameterAsSink h tf = Some dest"
    and k: "0 < k" "k \<le> length (getFeatures L)"
    and before: "\<forall>j. Suc j < k \<longrightarrow> \<not> isCanceled h j"
    and at: "isCanceled h (k - 1)"
  shows "length (sink (snd (processAlgorithm reg sec h w))) = length (sink w) + k"
proof -
  let ?fm = "build_field_map (parameterAsString h) (layer_field_names L) (field_definitions sec) Map.empty"
  from process_setup_ok[where reg = reg and sec = sec, OF L tfd tf dest, of w]
  obtain d where w': "snd (processAlgorithm reg sec h w) =
      snd (feature_loop tf ?fm d (map fst tfd) (isCanceled h) (featureCount L) 0 (getFeatures L) w)"
    by auto
  have a: "k - 1 < length (getFeatures L)" using k by simp
  have b: "\<forall>j<k - 1. \<not> isCanceled h (0 + j)" using before by simp
  have c: "isCanceled h (0 + (k - 1))" using at by simp
  from feature_loop_canceled_count[where c = "isCanceled h", OF a b c,
      of tf ?fm d "map fst tfd" "featureCount L" w] w' k(1)
  show ?thesis by simp
qed

text \<open>
  The check follows the write: a run that is already cancelled at its first check has
  written the first feature.
\<close>

lemma canceled_at_start_writes_one:
  assumes "parameterAsVectorLayer h = Some L" "reg sec = Some tfd"
    "build_target_fields tfd = Inr tf" "parameterAsSink h tf = Some dest"
    "getFeatures L \<noteq> []" "isCanceled h 0"
  shows "length (sink (snd (processAlgorithm reg sec h w))) = length (sink w) + 1"
proof -
  from assms(5) have "1 \<le> length (getFeatures L)"
    by (cases "getFeatures L") auto
  from process_canceled_count[where reg = reg and sec = sec and k = 1, OF assms(1-4) _ this, of w]
    assms(6)
  show ?thesis by simp
qed

lemma tagged_run:
  "processAlgorithm tagged_registry ''JUNCTIONS'' junction_host empty_world =
     (Inr ''junctions_out'',
      \<lparr>sink = [\<lparr>o_fields = [(''Name'', QString), (''Elevation'', QDouble), (''MaxDepth'', QDouble),
                             (''InitDepth'', QDouble), (''SurDepth'', QDouble), (''Aponded'', QDouble),
                             (''Tag'', QString)],
                 o_geometry = ''POINT(1 2)'',
                 o_attributes = [PyStr [], PyFloat 5.2, PyInt 0, PyInt 0, PyInt 0, PyInt 0, PyNone]\<rparr>],
       progress = [(1, 1)]\<rparr>)"
  by (simp add: processAlgorithm_def tagged_registry_def junctions_fields_def junction_host_def
      junction_layer_def junction_feature_def empty_world_def no_selection_def sink_named_def
      never_canceled_def field_definitions_def defaults_for_section_def type_map_def
      value_from_feature_def feature_getitem_def dict_get_def progress_quotient_def)

lemma map_of_mapped_items:
  "distinct (map fst items) \<Longrightarrow> (k, t) \<in> set items \<Longrightarrow>
   map_of (map (\<lambda>(k, v). (k, g v)) items) k = Some (g t)"
  by (induction items) (auto simp: image_iff)

lemma process_uncanceled_count:
  assumes L: "parameterAsVectorLayer h = Some L"
    and tfd: "reg sec = Some tfd"
    and tf: "build_target_fields tfd = Inr tf"
    and dest: "parameterAsSink h tf = Some dest"
    and never: "\<forall>j<length (getFeatures L). \<not> isCanceled h j"
  shows "length (sink (snd (processAlgorithm reg sec h w))) = length (sink w) + length (getFeatures L)"
proof -
  let ?fm = "build_field_map (parameterAsString h) (layer_field_names L) (field_definitions sec) Map.empty"
  from process_setup_ok[where reg = reg and sec = sec, OF L tfd tf dest, of w]
  obtain d where w': "snd (processAlgorithm reg sec h w) =
      snd (feature_loop tf ?fm d (map fst tfd) (isCanceled h) (featureCount L) 0 (getFeatures L) w)"
    by auto
  have b: "\<forall>j<length (getFeatures L). \<not> isCanceled h (0 + j)" using never by simp
  from feature_loop_uncanceled_count[where c = "isCanceled h", OF b,
      of tf ?fm d "map fst tfd" "featureCount L" w] w'
  show ?thesis by simp
qed

section \<open>The claims\<close>

text \<open>
  C1: for every section and every input feature, the attribute list written to the
  output feature has the length and the field order of the registry's field list for
  that section, however many mapping slots were filled. For the \<open>j\<close>-th feature a run
  writes: its fields are named as the registry's entry, in order; its attribute list is as
  long as the entry; and the attribute at each position is what \<open>_value_from_feature\<close>
  returns for the registry field at that position. The selections \<open>parameterAsString h\<close>
  are arbitrary.
\<close>

theorem C1_attribute_list_follows_registry:
  assumes run: "processAlgorithm reg sec h w = (r, w')"
    and L: "parameterAsVectorLayer h = Some L"
    and tfd: "reg sec = Some tfd"
    and d: "defaults_for_section reg sec = Inr d"
    and outs: "sink w' = sink w @ outs"
    and j: "j < length outs"
  shows "map fst (o_fields (outs ! j)) = map fst tfd \<and>
    length (o_attributes (outs ! j)) = length tfd \<and>
    map Inr (o_attributes (outs ! j)) =
      map (\<lambda>field. value_from_feature (getFeatures L ! j)
                     (build_field_map (parameterAsString h) (layer_field_names L)
                        (field_definitions sec) Map.empty field)
                     (dict_get d field))
          (map fst tfd)"
proof -
  let ?fm = "build_field_map (parameterAsString h) (layer_field_names L) (field_definitions sec) Map.empty"
  from process_written[OF run L outs j] tfd d
  obtain tf where tf: "build_target_fields tfd = Inr tf" "o_fields (outs ! j) = tf"
    and row: "row_attrs (getFeatures L ! j) ?fm d (map fst tfd) = Inr (o_attributes (outs ! j))"
    by auto
  have names: "map fst (o_fields (outs ! j)) = map fst tfd"
    using build_target_fields_names[OF tf(1)] tf(2) by simp
  have len: "length (o_attributes (outs ! j)) = length tfd"
    using row_attrs_nth[OF row] by simp
  from names len row_attrs_map[OF row] show ?thesis by simp
qed

theorem C1_attribute_list_follows_registry_witness:
  "map fst (o_fields (sink (snd (processAlgorithm example_registry ''JUNCTIONS'' junction_host
       empty_world)) ! 0)) =
     [''Name'', ''Elevation'', ''MaxDepth'', ''InitDepth'', ''SurDepth'', ''Aponded''] \<and>
   length (o_attributes (sink (snd (processAlgorithm example_registry ''JUNCTIONS'' junction_host
       empty_world)) ! 0)) = 6"
proof -
  define W where "W = snd (processAlgorithm example_registry ''JUNCTIONS'' junction_host empty_world)"
  have run: "processAlgorithm example_registry ''JUNCTIONS'' junction_host empty_world =
      (Inr ''junctions_out'', W)"
    by (simp add: W_def junction_run)
  have L: "parameterAsVectorLayer junction_host = Some junction_layer"
    by (simp add: junction_host_def)
  have tfd: "example_registry ''JUNCTIONS'' = Some junctions_fields"
    by (simp add: example_registry_def)
  obtain d where d: "defaults_for_section example_registry ''JUNCTIONS'' = Inr d"
    by (simp add: defaults_for_section_def)
  have outs: "sink W = sink empty_world @ [sink W ! 0]"
    unfolding W_def junction_run by (simp add: empty_world_def)
  have j: "0 < length [sink W ! 0]"
    by simp
  from C1_attribute_list_follows_registry[OF run L tfd d outs j]
  show ?thesis by (simp add: W_def junctions_fields_def)
qed

text \<open>
  C2: when the selection of a target field names a source field that is present on the
  feature with a value that is neither null nor the empty string, the output attribute
  of that target field is that value, unchanged. Here \<open>i\<close> is the position of the
  target field in the registry entry, \<open>j\<close> the position of the feature, \<open>fn\<close> the
  selection that \<open>field_map\<close> holds for the target field and \<open>v\<close> the value the
  feature has for \<open>fn\<close>.
\<close>

theorem C2_selected_value_passed_through:
  assumes run: "processAlgorithm reg sec h w = (r, w')"
    and L: "parameterAsVectorLayer h = Some L"
    and tfd: "reg sec = Some tfd"
    and outs: "sink w' = sink w @ outs"
    and j: "j < length outs"
    and i: "i < length tfd"
    and sel: "build_field_map (parameterAsString h) (layer_field_names L)
                (field_definitions sec) Map.empty (fst (tfd ! i)) = Some fn"
    and fn: "fn \<noteq> []"
    and v: "map_of (f_attributes (getFeatures L ! j)) fn = Some v"
    and nonnull: "v \<noteq> PyNone"
    and nonempty: "v \<noteq> PyStr []"
  shows "o_attributes (outs ! j) ! i = v"
proof -
  let ?fm = "build_field_map (parameterAsString h) (layer_field_names L) (field_definitions sec) Map.empty"
  from process_written[OF run L outs j] tfd
  obtain d where row: "row_attrs (getFeatures L ! j) ?fm d (map fst tfd) = Inr (o_attributes (outs ! j))"
    by auto
  from row_attrs_nth[OF row] i sel
  have "value_from_feature (getFeatures L ! j) (Some fn) (dict_get d (fst (tfd ! i))) =
      Inr (o_attributes (outs ! j) ! i)"
    by force
  with value_from_feature_selected[OF fn v nonnull nonempty] show ?thesis by simp
qed

theorem C2_selected_value_passed_through_witness:
  "map_of (f_attributes (getFeatures raingage_layer ! 0)) ''scf_factor'' = Some (PyFloat 0.8) \<and>
   o_attributes (sink (snd (processAlgorithm example_registry ''RAINGAGES'' raingage_host
       empty_world)) ! 0) ! 3 = PyFloat 0.8"
proof -
  define W where "W = snd (processAlgorithm example_registry ''RAINGAGES'' raingage_host empty_world)"
  have run: "processAlgorithm example_registry ''RAINGAGES'' raingage_host empty_world =
      (Inr ''raingages_out'', W)"
    by (simp add: W_def raingage_run)
  have L: "parameterAsVectorLayer raingage_host = Some raingage_layer"
    by (simp add: raingage_host_def)
  have tfd: "example_registry ''RAINGAGES'' = Some raingages_fields"
    by (simp add: example_registry_def)
  have outs: "sink W = sink empty_world @ [sink W ! 0, sink W ! 1]"
    unfolding W_def raingage_run by (simp add: empty_world_def)
  have j: "0 < length [sink W ! 0, sink W ! 1]"
    by simp
  have i: "3 < length raingages_fields"
    by (simp add: raingages_fields_def)
  have sel: "build_field_map (parameterAsString raingage_host) (layer_field_names raingage_layer)
      (field_definitions ''RAINGAGES'') Map.empty (fst (raingages_fields ! 3)) = Some ''scf_factor''"
    using raingage_selection by (simp add: raingage_host_def raingage_layer_def raingages_fields_def)
  have fn: "''scf_factor'' \<noteq> []"
    by simp
  have v: "map_of (f_attributes (getFeatures raingage_layer ! 0)) ''scf_factor'' = Some (PyFloat 0.8)"
    by (simp add: raingage_layer_def)
  from C2_selected_value_passed_through[OF run L tfd outs j i sel fn v] v
  show ?thesis by (simp add: W_def)
qed

text \<open>
  C3: when the selection of a target field is unset (no entry in \<open>field_map\<close>, or the
  empty string), or names a field that is absent from the feature, or the value read is
  null or the empty string, the output attribute is the default table's value for that
  target field, \<open>defaults.get(field)\<close>. The witness is the RAINGAGES example: a null
  in the column mapped to \<open>SCF\<close> yields the default 1.0.
\<close>

theorem C3_default_substituted:
  assumes run: "processAlgorithm reg sec h w = (r, w')"
    and L: "parameterAsVectorLayer h = Some L"
    and tfd: "reg sec = Some tfd"
    and d: "defaults_for_section reg sec = Inr d"
    and outs: "sink w' = sink w @ outs"
    and j: "j < length outs"
    and i: "i < length tfd"
    and sel: "sel = build_field_map (parameterAsString h) (layer_field_names L)
                (field_definitions sec) Map.empty (fst (tfd ! i))"
    and miss: "sel = None \<or> sel = Some [] \<or>
       (\<exists>fn. sel = Some fn \<and> fn \<notin> fst ` set (f_attributes (getFeatures L ! j))) \<or>
       (\<exists>fn. sel = Some fn \<and> map_of (f_attributes (getFeatures L ! j)) fn = Some PyNone) \<or>
       (\<exists>fn. sel = Some fn \<and> map_of (f_attributes (getFeatures L ! j)) fn = Some (PyStr []))"
  shows "o_attributes (outs ! j) ! i = dict_get d (fst (tfd ! i))"
proof -
  let ?fm = "build_field_map (parameterAsString h) (layer_field_names L) (field_definitions sec) Map.empty"
  from process_written[OF run L outs j] tfd d
  have row: "row_attrs (getFeatures L ! j) ?fm d (map fst tfd) = Inr (o_attributes (outs ! j))"
    by auto
  from row_attrs_nth[OF row] i sel
  have "value_from_feature (getFeatures L ! j) sel (dict_get d (fst (tfd ! i))) =
      Inr (o_attributes (outs ! j) ! i)"
    by force
  with value_from_feature_default[OF miss] show ?thesis by simp
qed

theorem C3_default_substituted_witness:
  "map_of (f_attributes (getFeatures raingage_layer ! 1)) ''scf_factor'' = Some PyNone \<and>
   o_attributes (sink (snd (processAlgorithm example_registry ''RAINGAGES'' raingage_host
       empty_world)) ! 1) ! 3 = PyFloat 1.0"
proof -
  define W where "W = snd (processAlgorithm example_registry ''RAINGAGES'' raingage_host empty_world)"
  have run: "processAlgorithm example_registry ''RAINGAGES'' raingage_host empty_world =
      (Inr ''raingages_out'', W)"
    by (simp add: W_def raingage_run)
  have L: "parameterAsVectorLayer raingage_host = Some raingage_layer"
    by (simp add: raingage_host_def)
  have tfd: "example_registry ''RAINGAGES'' = Some raingages_fields"
    by (simp add: example_registry_def)
  obtain d where d: "defaults_for_section example_registry ''RAINGAGES'' = Inr d"
    and scf: "dict_get d ''SCF'' = PyFloat 1.0"
    by (simp add: defaults_for_section_def dict_get_def)
  have outs: "sink W = sink empty_world @ [sink W ! 0, sink W ! 1]"
    unfolding W_def raingage_run by (simp add: empty_world_def)
  have j: "1 < length [sink W ! 0, sink W ! 1]"
    by simp
  have i: "3 < length raingages_fields"
    by (simp add: raingages_fields_def)
  have sel: "Some ''scf_factor'' =
      build_field_map (parameterAsString raingage_host) (layer_field_names raingage_layer)
        (field_definitions ''RAINGAGES'') Map.empty (fst (raingages_fields ! 3))"
    using raingage_selection by (simp add: raingage_host_def raingage_layer_def raingages_fields_def)
  have v: "map_of (f_attributes (getFeatures raingage_layer ! 1)) ''scf_factor'' = Some PyNone"
    by (simp add: raingage_layer_def)
  then have miss: "Some ''scf_factor'' = None \<or> Some ''scf_factor'' = Some [] \<or>
       (\<exists>fn. Some ''scf_factor'' = Some fn \<and> fn \<notin> fst ` set (f_attributes (getFeatures raingage_layer ! 1))) \<or>
       (\<exists>fn. Some ''scf_factor'' = Some fn \<and> map_of (f_attributes (getFeatures raingage_layer ! 1)) fn = Some PyNone) \<or>
       (\<exists>fn. Some ''scf_factor'' = Some fn \<and> map_of (f_attributes (getFeatures raingage_layer ! 1)) fn = Some (PyStr []))"
    by blast
  from C3_default_substituted[OF run L tfd d outs j i sel miss] scf v
  show ?thesis by (simp add: W_def raingages_fields_def)
qed

text \<open>
  C4: when the operator's choice for a mapping slot is empty, the slot is resolved by an
  exact, case-sensitive match of the slot's target field name against the field names of
  the input layer: it is bound to that field when the layer has it, and stays unset (the
  empty string) otherwise. This holds for every slot of every section. In particular the
  JUNCTIONS scenario, with no selection made and a layer whose fields are named after the
  target fields, turns the feature \<open>{Elevation: 5.2, MaxDepth: '', InitDepth: None}\<close>
  into the attribute list \<open>['', 5.2, 0, 0, 0, 0]\<close>. The witness binds \<open>Elevation\<close>
  on a layer that has the field and leaves it unset on a layer that spells it
  \<open>elevation\<close>.
\<close>

theorem C4_auto_match_by_name:
  "((pid, lbl, tf, req) \<in> set (field_definitions sec) \<and> ps pid = [] \<longrightarrow>
      build_field_map ps names (field_definitions sec) Map.empty tf =
        Some (if tf \<in> set names then tf else [])) \<and>
   processAlgorithm example_registry ''JUNCTIONS'' junction_host empty_world =
     (Inr ''junctions_out'',
      \<lparr>sink = [\<lparr>o_fields = [(''Name'', QString), (''Elevation'', QDouble), (''MaxDepth'', QDouble),
                             (''InitDepth'', QDouble), (''SurDepth'', QDouble), (''Aponded'', QDouble)],
                 o_geometry = f_geometry junction_feature,
                 o_attributes = [PyStr '''', PyFloat 5.2, PyInt 0, PyInt 0, PyInt 0, PyInt 0]\<rparr>],
       progress = [(1, 1)]\<rparr>)"
proof -
  have "build_field_map ps names (field_definitions sec) Map.empty tf =
      Some (if tf \<in> set names then tf else [])"
    if "(pid, lbl, tf, req) \<in> set (field_definitions sec)" "ps pid = []"
    using build_field_map_lookup[OF field_definitions_distinct that(1), of ps names Map.empty] that(2)
    by simp
  moreover have "f_geometry junction_feature = ''POINT(1 2)''"
    by (simp add: junction_feature_def)
  ultimately show ?thesis
    using junction_run by simp
qed

theorem C4_auto_match_by_name_witness:
  "(''ELEV_FIELD'', ''Elevation field'', ''Elevation'', True) \<in> set (field_definitions ''JUNCTIONS'') \<and>
   no_selection ''ELEV_FIELD'' = [] \<and>
   build_field_map no_selection [''Name'', ''Elevation''] (field_definitions ''JUNCTIONS'')
     Map.empty ''Elevation'' = Some ''Elevation'' \<and>
   build_field_map no_selection [''name'', ''elevation''] (field_definitions ''JUNCTIONS'')
     Map.empty ''Elevation'' = Some []"
proof -
  have slot: "(''ELEV_FIELD'', ''Elevation field'', ''Elevation'', True) \<in> set (field_definitions ''JUNCTIONS'')"
    by (simp add: field_definitions_def)
  have unset: "no_selection ''ELEV_FIELD'' = []"
    by (simp add: no_selection_def)
  from C4_auto_match_by_name[where ps = no_selection and names = "[''Name'', ''Elevation'']",
      THEN conjunct1, rule_format, OF conjI, OF slot unset]
    C4_auto_match_by_name[where ps = no_selection and names = "[''name'', ''elevation'']",
      THEN conjunct1, rule_format, OF conjI, OF slot unset]
    slot unset
  show ?thesis by simp
qed

text \<open>
  C5, as stated, fails: a default table that lacks an entry for a declared target field
  is not a fatal error. With a \<open>JUNCTIONS\<close> registry entry that declares the field
  \<open>Tag\<close>, which the section's default table lacks, the run succeeds and the feature is
  written with \<open>None\<close> in that position (\<open>defaults.get(field)\<close>).
\<close>

theorem C5_missing_default_counterexample:
  "tagged_registry ''JUNCTIONS'' =
     Some [(''Name'', ''String''), (''Elevation'', ''Double''), (''MaxDepth'', ''Double''),
           (''InitDepth'', ''Double''), (''SurDepth'', ''Double''), (''Aponded'', ''Double''),
           (''Tag'', ''String'')] \<and>
   defaults_for_section tagged_registry ''JUNCTIONS'' =
     Inr [(''Name'', PyStr []), (''Elevation'', PyInt 0), (''MaxDepth'', PyInt 0),
          (''InitDepth'', PyInt 0), (''SurDepth'', PyInt 0), (''Aponded'', PyInt 0)] \<and>
   processAlgorithm tagged_registry ''JUNCTIONS'' junction_host empty_world =
     (Inr ''junctions_out'',
      \<lparr>sink = [\<lparr>o_fields = [(''Name'', QString), (''Elevation'', QDouble), (''MaxDepth'', QDouble),
                             (''InitDepth'', QDouble), (''SurDepth'', QDouble), (''Aponded'', QDouble),
                             (''Tag'', QString)],
                 o_geometry = ''POINT(1 2)'',
                 o_attributes = [PyStr [], PyFloat 5.2, PyInt 0, PyInt 0, PyInt 0, PyInt 0, PyNone]\<rparr>],
       progress = [(1, 1)]\<rparr>)"
  using tagged_run
  by (simp add: tagged_registry_def junctions_fields_def defaults_for_section_def)

text \<open>
  C5, amended: an unknown section name is a fatal error that is raised before any feature
  is processed and leaves the output untouched (\<open>KeyError\<close> of the section name once an
  input layer is given). A default table that lacks an entry for a declared target field
  is not an error: the run succeeds, and in every feature written the attribute of that
  field is computed with \<open>None\<close> as its default.
\<close>

theorem C5_unknown_section_fatal_missing_default_none:
  "(reg sec = None \<longrightarrow>
      (\<exists>e. processAlgorithm reg sec h w = (Inl e, w)) \<and>
      (parameterAsVectorLayer h \<noteq> None \<longrightarrow>
         processAlgorithm reg sec h w = (Inl (KeyError sec), w))) \<and>
   (parameterAsVectorLayer h = Some L \<and> reg sec = Some tfd \<and> build_target_fields tfd = Inr tf \<and>
    parameterAsSink h tf = Some dest \<and> defaults_for_section reg sec = Inr d \<and>
    i < length tfd \<and> map_of d (fst (tfd ! i)) = None \<longrightarrow>
      (\<exists>outs w'. processAlgorithm reg sec h w = (Inr dest, w') \<and> sink w' = sink w @ outs \<and>
         (\<forall>j<length outs.
            value_from_feature (getFeatures L ! j)
              (build_field_map (parameterAsString h) (layer_field_names L)
                 (field_definitions sec) Map.empty (fst (tfd ! i)))
              PyNone = Inr (o_attributes (outs ! j) ! i))))"
proof -
  have unknown: "\<exists>e. processAlgorithm reg sec h w = (Inl e, w)" if "reg sec = None"
    using process_cases[of reg sec h w] that by auto
  have keyerror: "processAlgorithm reg sec h w = (Inl (KeyError sec), w)"
    if "reg sec = None" "parameterAsVectorLayer h \<noteq> None"
    using that by (auto simp: processAlgorithm_def)
  have missing: "\<exists>outs w'. processAlgorithm reg sec h w = (Inr dest, w') \<and> sink w' = sink w @ outs \<and>
         (\<forall>j<length outs.
            value_from_feature (getFeatures L ! j)
              (build_field_map (parameterAsString h) (layer_field_names L)
                 (field_definitions sec) Map.empty (fst (tfd ! i)))
              PyNone = Inr (o_attributes (outs ! j) ! i))"
    if L: "parameterAsVectorLayer h = Some L" and tfd: "reg sec = Some tfd"
      and tf: "build_target_fields tfd = Inr tf" and dest: "parameterAsSink h tf = Some dest"
      and d: "defaults_for_section reg sec = Inr d" and i: "i < length tfd"
      and none: "map_of d (fst (tfd ! i)) = None"
  proof -
    let ?fm = "build_field_map (parameterAsString h) (layer_field_names L) (field_definitions sec) Map.empty"
    from process_run[where reg = reg and sec = sec, OF L tfd tf dest, of w]
    obtain outs w' where run: "processAlgorithm reg sec h w = (Inr dest, w')"
      and outs: "sink w' = sink w @ outs"
      by blast
    have "value_from_feature (getFeatures L ! j) (?fm (fst (tfd ! i))) PyNone =
        Inr (o_attributes (outs ! j) ! i)" if j: "j < length outs" for j
    proof -
      from process_written[OF run L outs j] tfd d
      have row: "row_attrs (getFeatures L ! j) ?fm d (map fst tfd) = Inr (o_attributes (outs ! j))"
        by auto
      from row_attrs_nth[OF row] i
      have "value_from_feature (getFeatures L ! j) (?fm (fst (tfd ! i))) (dict_get d (fst (tfd ! i))) =
          Inr (o_attributes (outs ! j) ! i)"
        by force
      with none show ?thesis by (simp add: dict_get_def)
    qed
    with run outs show ?thesis by blast
  qed
  from unknown keyerror missing show ?thesis by blast
qed

theorem C5_unknown_section_fatal_missing_default_none_witness:
  "example_registry ''GULLIES'' = None \<and>
   processAlgorithm example_registry ''GULLIES'' junction_host empty_world =
     (Inl (KeyError ''GULLIES''), empty_world) \<and>
   fst (processAlgorithm tagged_registry ''JUNCTIONS'' junction_host empty_world) =
     Inr ''junctions_out'' \<and>
   o_attributes (sink (snd (processAlgorithm tagged_registry ''JUNCTIONS'' junction_host
     empty_world)) ! 0) ! 6 = PyNone"
proof -
  have a: "example_registry ''GULLIES'' = None"
    by (simp add: example_registry_def)
  have b: "parameterAsVectorLayer junction_host \<noteq> None"
    by (simp add: junction_host_def)
  have c: "parameterAsVectorLayer junction_host = Some junction_layer \<and>
      tagged_registry ''JUNCTIONS'' = Some (junctions_fields @ [(''Tag'', ''String'')]) \<and>
      build_target_fields (junctions_fields @ [(''Tag'', ''String'')]) =
        Inr [(''Name'', QString), (''Elevation'', QDouble), (''MaxDepth'', QDouble),
             (''InitDepth'', QDouble), (''SurDepth'', QDouble), (''Aponded'', QDouble),
             (''Tag'', QString)] \<and>
      parameterAsSink junction_host
        [(''Name'', QString), (''Elevation'', QDouble), (''MaxDepth'', QDouble),
         (''InitDepth'', QDouble), (''SurDepth'', QDouble), (''Aponded'', QDouble),
         (''Tag'', QString)] = Some ''junctions_out'' \<and>
      defaults_for_section tagged_registry ''JUNCTIONS'' =
        Inr [(''Name'', PyStr []), (''Elevation'', PyInt 0), (''MaxDepth'', PyInt 0),
             (''InitDepth'', PyInt 0), (''SurDepth'', PyInt 0), (''Aponded'', PyInt 0)] \<and>
      6 < length (junctions_fields @ [(''Tag'', ''String'')]) \<and>
      map_of [(''Name'', PyStr []), (''Elevation'', PyInt 0), (''MaxDepth'', PyInt 0),
              (''InitDepth'', PyInt 0), (''SurDepth'', PyInt 0), (''Aponded'', PyInt 0)]
        (fst ((junctions_fields @ [(''Tag'', ''String'')]) ! 6)) = None"
    by (simp add: junction_host_def tagged_registry_def junctions_fields_def type_map_def
        sink_named_def defaults_for_section_def)
  have sel: "build_field_map (parameterAsString junction_host) (layer_field_names junction_layer)
      (field_definitions ''JUNCTIONS'') Map.empty
      (fst ((junctions_fields @ [(''Tag'', ''String'')]) ! 6)) = None"
    by (simp add: junctions_fields_def field_definitions_def Let_def)
  from C5_unknown_section_fatal_missing_default_none[where reg = tagged_registry
      and sec = "''JUNCTIONS''" and w = empty_world, THEN conjunct2, rule_format, OF c]
  obtain outs w' where run: "processAlgorithm tagged_registry ''JUNCTIONS'' junction_host empty_world =
        (Inr ''junctions_out'', w')"
    and outs: "sink w' = sink empty_world @ outs"
    and vals: "\<forall>j<length outs. value_from_feature (getFeatures junction_layer ! j) None PyNone =
        Inr (o_attributes (outs ! j) ! 6)"
    unfolding sel by blast
  from run have "w' = snd (processAlgorithm tagged_registry ''JUNCTIONS'' junction_host empty_world)"
    by simp
  then have w': "length (sink w') = 1"
    unfolding tagged_run by simp
  with outs have len: "length outs = 1"
    by (simp add: empty_world_def)
  with vals have "o_attributes (outs ! 0) ! 6 = PyNone"
    by (simp add: value_from_feature_def)
  with outs have tag: "o_attributes (sink w' ! 0) ! 6 = PyNone"
    by (simp add: empty_world_def)
  from C5_unknown_section_fatal_missing_default_none[where reg = example_registry
      and sec = "''GULLIES''" and h = junction_host and w = empty_world,
      THEN conjunct1, rule_format, OF a, THEN conjunct2, rule_format, OF b] a run tag
  show ?thesis by simp
qed

text \<open>
  C6, as stated, fails: for a section with no default table of its own, here
  \<open>DIVIDERS\<close>, \<open>_defaults_for_section\<close> assigns \<open>None\<close> to the text field and to
  the numeric field alike, not the empty text and 0.
\<close>

theorem C6_fallback_defaults_counterexample:
  "example_registry ''DIVIDERS'' = Some [(''Name'', ''String''), (''Elevation'', ''Double'')] \<and>
   defaults_for_section example_registry ''DIVIDERS'' =
     Inr [(''Name'', PyNone), (''Elevation'', PyNone)]"
  by (simp add: example_registry_def defaults_for_section_def)

text \<open>
  C6, amended: for \<open>STORAGE\<close>, whose defaults are derived from the registry,
  \<open>_defaults_for_section\<close> assigns 0 to every field whose registry type is
  \<open>Double\<close> and the empty text to every other field; for every other section without a
  table of its own it assigns \<open>None\<close> to every field of the registry entry. In both
  cases the default table has the registry entry's fields, in order.
\<close>

theorem C6_storage_derived_others_none:
  "(reg ''STORAGE'' = Some items \<and> distinct (map fst items) \<and> (k, t) \<in> set items \<longrightarrow>
      (\<exists>d. defaults_for_section reg ''STORAGE'' = Inr d \<and> map fst d = map fst items \<and>
           map_of d k = Some (if t = ''Double'' then PyInt 0 else PyStr []))) \<and>
   (sec \<notin> set [''SUBCATCHMENTS'', ''JUNCTIONS'', ''OUTFALLS'', ''RAINGAGES'', ''STORAGE'',
                ''CONDUITS'', ''ORIFICES'', ''PUMPS'', ''WEIRS''] \<and>
    reg sec = Some items \<and> distinct (map fst items) \<and> (k, t) \<in> set items \<longrightarrow>
      (\<exists>d. defaults_for_section reg sec = Inr d \<and> map fst d = map fst items \<and>
           map_of d k = Some PyNone))"
proof -
  have storage: "\<exists>d. defaults_for_section reg ''STORAGE'' = Inr d \<and> map fst d = map fst items \<and>
           map_of d k = Some (if t = ''Double'' then PyInt 0 else PyStr [])"
    if "reg ''STORAGE'' = Some items" "distinct (map fst items)" "(k, t) \<in> set items"
  proof -
    have "defaults_for_section reg ''STORAGE'' =
        Inr (map (\<lambda>(k, v). (k, if v = ''Double'' then PyInt 0 else PyStr [])) items)"
      using that(1) by (simp add: defaults_for_section_def)
    moreover have "map fst (map (\<lambda>(k, v). (k, if v = ''Double'' then PyInt 0 else PyStr [])) items) =
        map fst items"
      by (induction items) auto
    ultimately show ?thesis
      using map_of_mapped_items[OF that(2,3), of "\<lambda>v. if v = ''Double'' then PyInt 0 else PyStr []"]
      by simp
  qed
  have other: "\<exists>d. defaults_for_section reg sec = Inr d \<and> map fst d = map fst items \<and>
           map_of d k = Some PyNone"
    if "sec \<notin> set [''SUBCATCHMENTS'', ''JUNCTIONS'', ''OUTFALLS'', ''RAINGAGES'', ''STORAGE'',
                ''CONDUITS'', ''ORIFICES'', ''PUMPS'', ''WEIRS'']"
      "reg sec = Some items" "distinct (map fst items)" "(k, t) \<in> set items"
  proof -
    have "defaults_for_section reg sec = Inr (map (\<lambda>(k, v). (k, PyNone)) items)"
      using that(1,2) by (simp add: defaults_for_section_def)
    moreover have "map fst (map (\<lambda>(k, v). (k, PyNone)) items) = map fst items"
      by (induction items) auto
    ultimately show ?thesis
      using map_of_mapped_items[OF that(3,4), of "\<lambda>v. PyNone"]
      by simp
  qed
  from storage other show ?thesis by blast
qed

theorem C6_storage_derived_others_none_witness:
  "(\<exists>d. defaults_for_section example_registry ''STORAGE'' = Inr d \<and>
        map_of d ''Elevation'' = Some (PyInt 0)) \<and>
   (\<exists>d. defaults_for_section example_registry ''STORAGE'' = Inr d \<and>
        map_of d ''Curve'' = Some (PyStr [])) \<and>
   (\<exists>d. defaults_for_section example_registry ''DIVIDERS'' = Inr d \<and>
        map_of d ''Elevation'' = Some PyNone)"
proof -
  have s1: "example_registry ''STORAGE'' =
        Some [(''Name'', ''String''), (''Elevation'', ''Double''), (''Curve'', ''String'')] \<and>
      distinct (map fst [(''Name'', ''String''), (''Elevation'', ''Double''), (''Curve'', ''String'')]) \<and>
      (''Elevation'', ''Double'') \<in> set [(''Name'', ''String''), (''Elevation'', ''Double''), (''Curve'', ''String'')]"
    by (simp add: example_registry_def)
  have s2: "example_registry ''STORAGE'' =
        Some [(''Name'', ''String''), (''Elevation'', ''Double''), (''Curve'', ''String'')] \<and>
      distinct (map fst [(''Name'', ''String''), (''Elevation'', ''Double''), (''Curve'', ''String'')]) \<and>
      (''Curve'', ''String'') \<in> set [(''Name'', ''String''), (''Elevation'', ''Double''), (''Curve'', ''String'')]"
    by (simp add: example_registry_def)
  have s3: "''DIVIDERS'' \<notin> set [''SUBCATCHMENTS'', ''JUNCTIONS'', ''OUTFALLS'', ''RAINGAGES'', ''STORAGE'',
                ''CONDUITS'', ''ORIFICES'', ''PUMPS'', ''WEIRS''] \<and>
      example_registry ''DIVIDERS'' = Some [(''Name'', ''String''), (''Elevation'', ''Double'')] \<and>
      distinct (map fst [(''Name'', ''String''), (''Elevation'', ''Double'')]) \<and>
      (''Elevation'', ''Double'') \<in> set [(''Name'', ''String''), (''Elevation'', ''Double'')]"
    by (simp add: example_registry_def)
  from C6_storage_derived_others_none[where reg = example_registry, THEN conjunct1, rule_format, OF s1]
    C6_storage_derived_others_none[where reg = example_registry, THEN conjunct1, rule_format, OF s2]
    C6_storage_derived_others_none[where reg = example_registry and sec = "''DIVIDERS''",
      THEN conjunct2, rule_format, OF s3]
  show ?thesis by auto
qed

text \<open>
  C7: cancellation is checked after each feature and is not an error. When the check that
  follows the \<open>k\<close>-th feature is the first to report cancellation (\<open>1 \<le> k \<le> n\<close>),
  the run returns the destination id without raising, what the sink held before is still
  there, and exactly the first \<open>k\<close> features have been added to it, each with its
  geometry and its row of attributes. The witness is the scenario of 3 of 10 features.
\<close>

theorem C7_cancellation_keeps_partial_output:
  assumes L: "parameterAsVectorLayer h = Some L"
    and tfd: "reg sec = Some tfd"
    and tf: "build_target_fields tfd = Inr tf"
    and dest: "parameterAsSink h tf = Some dest"
    and k: "0 < k" "k \<le> length (getFeatures L)"
    and before: "\<forall>j. Suc j < k \<longrightarrow> \<not> isCanceled h j"
    and at: "isCanceled h (k - 1)"
  shows "\<exists>d outs w'. defaults_for_section reg sec = Inr d \<and>
    processAlgorithm reg sec h w = (Inr dest, w') \<and> sink w' = sink w @ outs \<and> length outs = k \<and>
    list_all2 (\<lambda>f out. o_fields out = tf \<and> o_geometry out = f_geometry f \<and>
        row_attrs f (build_field_map (parameterAsString h) (layer_field_names L)
                       (field_definitions sec) Map.empty) d (map fst tfd) = Inr (o_attributes out))
      (take k (getFeatures L)) outs"
proof -
  let ?fm = "build_field_map (parameterAsString h) (layer_field_names L) (field_definitions sec) Map.empty"
  from process_run[where reg = reg and sec = sec, OF L tfd tf dest, of w]
  obtain d outs w' where d: "defaults_for_section reg sec = Inr d"
    and run: "processAlgorithm reg sec h w = (Inr dest, w')"
    and outs: "sink w' = sink w @ outs"
    and all: "list_all2 (\<lambda>f out. o_fields out = tf \<and> o_geometry out = f_geometry f \<and>
        row_attrs f ?fm d (map fst tfd) = Inr (o_attributes out))
      (take (length outs) (getFeatures L)) outs"
    by blast
  from process_canceled_count[where reg = reg and sec = sec, OF L tfd tf dest k before at, of w]
    run outs
  have "length outs = k" by simp
  with d run outs all show ?thesis by blast
qed

theorem C7_cancellation_keeps_partial_output_witness:
  "length (getFeatures ten_layer) = 10 \<and>
   \<not> isCanceled canceling_host 0 \<and> \<not> isCanceled canceling_host 1 \<and> isCanceled canceling_host 2 \<and>
   fst (processAlgorithm example_registry ''JUNCTIONS'' canceling_host empty_world) =
     Inr ''partial_out'' \<and>
   length (sink (snd (processAlgorithm example_registry ''JUNCTIONS'' canceling_host empty_world))) = 3"
proof -
  have L: "parameterAsVectorLayer canceling_host = Some ten_layer"
    by (simp add: canceling_host_def)
  have tfd: "example_registry ''JUNCTIONS'' = Some junctions_fields"
    by (simp add: example_registry_def)
  have tf: "build_target_fields junctions_fields =
        Inr [(''Name'', QString), (''Elevation'', QDouble), (''MaxDepth'', QDouble),
             (''InitDepth'', QDouble), (''SurDepth'', QDouble), (''Aponded'', QDouble)]"
    by (simp add: junctions_fields_def type_map_def)
  have dest: "parameterAsSink canceling_host
        [(''Name'', QString), (''Elevation'', QDouble), (''MaxDepth'', QDouble),
         (''InitDepth'', QDouble), (''SurDepth'', QDouble), (''Aponded'', QDouble)] =
        Some ''partial_out''"
    by (simp add: canceling_host_def sink_named_def)
  have len: "length (getFeatures ten_layer) = 10"
    by (simp add: ten_layer_def)
  have k: "(0::nat) < 3" "3 \<le> length (getFeatures ten_layer)"
    using len by simp_all
  have c0: "\<not> isCanceled canceling_host 0" and c1: "\<not> isCanceled canceling_host 1"
    and c2: "isCanceled canceling_host 2"
    by (simp_all add: canceling_host_def canceled_from_def)
  have before: "\<forall>j. Suc j < 3 \<longrightarrow> \<not> isCanceled canceling_host j"
    by (simp add: canceling_host_def canceled_from_def)
  have at: "isCanceled canceling_host (3 - 1)"
    by (simp add: canceling_host_def canceled_from_def)
  from C7_cancellation_keeps_partial_output[where reg = example_registry and sec = "''JUNCTIONS''"
      and w = empty_world, OF L tfd tf dest k before at]
  have "fst (processAlgorithm example_registry ''JUNCTIONS'' canceling_host empty_world) =
     Inr ''partial_out'' \<and>
   length (sink (snd (processAlgorithm example_registry ''JUNCTIONS'' canceling_host empty_world))) = 3"
    by (auto simp: empty_world_def)
  with len c0 c1 c2 show ?thesis by simp
qed

text \<open>
  C8: without an input layer the run raises \<open>Input layer is required.\<close>; when the sink
  cannot be created it raises \<open>Could not create output sink.\<close>; in both cases, and
  whenever no sink can be created at all, the run ends in an exception and the effects
  are those it started with: no feature has been written.
\<close>

theorem C8_setup_failures_are_fatal:
  "(parameterAsVectorLayer h = None \<longrightarrow>
      processAlgorithm reg sec h w = (Inl (QgsProcessingException ''Input layer is required.''), w)) \<and>
   (parameterAsVectorLayer h = Some L \<and> reg sec = Some tfd \<and> build_target_fields tfd = Inr tf \<and>
    parameterAsSink h tf = None \<longrightarrow>
      processAlgorithm reg sec h w =
        (Inl (QgsProcessingException ''Could not create output sink.''), w)) \<and>
   (parameterAsVectorLayer h = None \<or> (\<forall>tf. parameterAsSink h tf = None) \<longrightarrow>
      (\<exists>e. processAlgorithm reg sec h w = (Inl e, w)))"
proof -
  have "\<exists>e. processAlgorithm reg sec h w = (Inl e, w)"
    if "parameterAsVectorLayer h = None \<or> (\<forall>tf. parameterAsSink h tf = None)"
    using process_cases[of reg sec h w] that by auto
  then show ?thesis
    by (simp add: processAlgorithm_def)
qed

theorem C8_setup_failures_are_fatal_witness:
  "processAlgorithm example_registry ''JUNCTIONS'' no_layer_host empty_world =
     (Inl (QgsProcessingException ''Input layer is required.''), empty_world) \<and>
   processAlgorithm example_registry ''JUNCTIONS'' no_sink_host empty_world =
     (Inl (QgsProcessingException ''Could not create output sink.''), empty_world)"
proof -
  have a: "parameterAsVectorLayer no_layer_host = None"
    by (simp add: no_layer_host_def)
  have b: "parameterAsVectorLayer no_sink_host = Some junction_layer \<and>
      example_registry ''JUNCTIONS'' = Some junctions_fields \<and>
      build_target_fields junctions_fields =
        Inr [(''Name'', QString), (''Elevation'', QDouble), (''MaxDepth'', QDouble),
             (''InitDepth'', QDouble), (''SurDepth'', QDouble), (''Aponded'', QDouble)] \<and>
      parameterAsSink no_sink_host
        [(''Name'', QString), (''Elevation'', QDouble), (''MaxDepth'', QDouble),
         (''InitDepth'', QDouble), (''SurDepth'', QDouble), (''Aponded'', QDouble)] = None"
    by (simp add: no_sink_host_def example_registry_def junctions_fields_def type_map_def
        sink_refused_def)
  from C8_setup_failures_are_fatal[THEN conjunct1, rule_format, OF a,
      of example_registry "''JUNCTIONS''" empty_world]
    C8_setup_failures_are_fatal[where reg = example_registry and sec = "''JUNCTIONS''"
      and w = empty_world, THEN conjunct2, THEN conjunct1, rule_format, OF b]
  show ?thesis by simp
qed

text \<open>
  C9: for every input feature the output feature's geometry is the input feature's
  geometry, unmodified, whatever the attribute mapping does. For any registry, section and
  selections, what a run adds to the sink carries, in order, the geometries of the first
  input features. When the sink has been created the run returns the destination id, and
  the number of geometries copied is determined: a run in which no check reports
  cancellation copies the geometry of every input feature, and a run whose check after the
  \<open>k\<close>-th feature is the first to report cancellation copies the geometries of the
  first \<open>k\<close> features. The witness copies both geometries of the RAINGAGES layer and
  the first three of the ten features of the cancelled run.
\<close>

theorem C9_geometry_copied:
  assumes L: "parameterAsVectorLayer h = Some L"
  shows "\<exists>outs. sink (snd (processAlgorithm reg sec h w)) = sink w @ outs \<and>
    length outs \<le> length (getFeatures L) \<and>
    map o_geometry outs = map f_geometry (take (length outs) (getFeatures L)) \<and>
    (reg sec = Some tfd \<and> build_target_fields tfd = Inr tf \<and> parameterAsSink h tf = Some dest \<longrightarrow>
       fst (processAlgorithm reg sec h w) = Inr dest \<and>
       ((\<forall>j<length (getFeatures L). \<not> isCanceled h j) \<longrightarrow>
          map o_geometry outs = map f_geometry (getFeatures L)) \<and>
       (\<forall>k. 0 < k \<and> k \<le> length (getFeatures L) \<and> (\<forall>j. Suc j < k \<longrightarrow> \<not> isCanceled h j) \<and>
            isCanceled h (k - 1) \<longrightarrow>
          map o_geometry outs = map f_geometry (take k (getFeatures L))))"
proof -
  define r where "r = fst (processAlgorithm reg sec h w)"
  define w' where "w' = snd (processAlgorithm reg sec h w)"
  have run: "processAlgorithm reg sec h w = (r, w')"
    by (simp add: r_def w'_def)
  from process_appends[of reg sec h w] obtain outs where outs: "sink w' = sink w @ outs"
    unfolding w'_def by blast
  have each: "j < length (getFeatures L) \<and> o_geometry (outs ! j) = f_geometry (getFeatures L ! j)"
    if "j < length outs" for j
    using process_written[OF run L outs that] by blast
  have len: "length outs \<le> length (getFeatures L)"
  proof (cases outs rule: rev_cases)
    case Nil
    then show ?thesis by simp
  next
    case (snoc ys y)
    then have "length ys < length outs" by simp
    from each[OF this] snoc show ?thesis by simp
  qed
  have geom: "map o_geometry outs = map f_geometry (take (length outs) (getFeatures L))"
    using len each by (intro nth_equalityI) auto
  have ok: "fst (processAlgorithm reg sec h w) = Inr dest \<and>
       ((\<forall>j<length (getFeatures L). \<not> isCanceled h j) \<longrightarrow>
          map o_geometry outs = map f_geometry (getFeatures L)) \<and>
       (\<forall>k. 0 < k \<and> k \<le> length (getFeatures L) \<and> (\<forall>j. Suc j < k \<longrightarrow> \<not> isCanceled h j) \<and>
            isCanceled h (k - 1) \<longrightarrow>
          map o_geometry outs = map f_geometry (take k (getFeatures L)))"
    if tfd: "reg sec = Some tfd" and tf: "build_target_fields tfd = Inr tf"
      and dest: "parameterAsSink h tf = Some dest"
  proof (intro conjI impI allI)
    from process_setup_ok[where reg = reg and sec = sec, OF L tfd tf dest, of w]
    show "fst (processAlgorithm reg sec h w) = Inr dest" by auto
  next
    assume never: "\<forall>j<length (getFeatures L). \<not> isCanceled h j"
    from process_uncanceled_count[where reg = reg and sec = sec, OF L tfd tf dest never, of w] outs
    have "length outs = length (getFeatures L)"
      by (simp add: w'_def)
    with geom show "map o_geometry outs = map f_geometry (getFeatures L)" by simp
  next
    fix k
    assume k: "0 < k \<and> k \<le> length (getFeatures L) \<and> (\<forall>j. Suc j < k \<longrightarrow> \<not> isCanceled h j) \<and>
            isCanceled h (k - 1)"
    then have k1: "0 < k" and k2: "k \<le> length (getFeatures L)"
      and k3: "\<forall>j. Suc j < k \<longrightarrow> \<not> isCanceled h j" and k4: "isCanceled h (k - 1)"
      by simp_all
    from process_canceled_count[where reg = reg and sec = sec, OF L tfd tf dest k1 k2 k3 k4, of w] outs
    have "length outs = k"
      by (simp add: w'_def)
    with geom show "map o_geometry outs = map f_geometry (take k (getFeatures L))" by simp
  qed
  from outs len geom ok show ?thesis
    unfolding w'_def by blast
qed

theorem C9_geometry_copied_witness:
  "map f_geometry (getFeatures raingage_layer) = [''POINT(0 0)'', ''POINT(5 5)''] \<and>
   map o_geometry (sink (snd (processAlgorithm example_registry ''RAINGAGES'' raingage_host
     empty_world))) = [''POINT(0 0)'', ''POINT(5 5)''] \<and>
   map o_geometry (sink (snd (processAlgorithm example_registry ''JUNCTIONS'' canceling_host
     empty_world))) = map f_geometry (take 3 (getFeatures ten_layer))"
proof -
  have L: "parameterAsVectorLayer raingage_host = Some raingage_layer"
    by (simp add: raingage_host_def)
  have ready: "example_registry ''RAINGAGES'' = Some raingages_fields \<and>
      build_target_fields raingages_fields =
        Inr [(''Name'', QString), (''Format'', QString), (''Interval'', QString),
             (''SCF'', QDouble), (''DataSource'', QString), (''SeriesName'', QString),
             (''FileName'', QString), (''StationID'', QString), (''RainUnits'', QString)] \<and>
      parameterAsSink raingage_host
        [(''Name'', QString), (''Format'', QString), (''Interval'', QString),
         (''SCF'', QDouble), (''DataSource'', QString), (''SeriesName'', QString),
         (''FileName'', QString), (''StationID'', QString), (''RainUnits'', QString)] =
        Some ''raingages_out''"
    by (simp add: example_registry_def raingages_fields_def type_map_def raingage_host_def
        sink_named_def)
  have never: "\<forall>j<length (getFeatures raingage_layer). \<not> isCanceled raingage_host j"
    by (simp add: raingage_host_def never_canceled_def)
  have feats: "map f_geometry (getFeatures raingage_layer) = [''POINT(0 0)'', ''POINT(5 5)'']"
    by (simp add: raingage_layer_def)
  from C9_geometry_copied[where reg = example_registry and sec = "''RAINGAGES''"
      and w = empty_world, OF L]
  obtain outs where outs: "sink (snd (processAlgorithm example_registry ''RAINGAGES'' raingage_host
        empty_world)) = sink empty_world @ outs"
    and all: "map o_geometry outs = map f_geometry (getFeatures raingage_layer)"
    using ready never by blast
  from outs all feats
  have rain: "map o_geometry (sink (snd (processAlgorithm example_registry ''RAINGAGES''
      raingage_host empty_world))) = [''POINT(0 0)'', ''POINT(5 5)'']"
    by (simp add: empty_world_def)
  have L2: "parameterAsVectorLayer canceling_host = Some ten_layer"
    by (simp add: canceling_host_def)
  have ready2: "example_registry ''JUNCTIONS'' = Some junctions_fields \<and>
      build_target_fields junctions_fields =
        Inr [(''Name'', QString), (''Elevation'', QDouble), (''MaxDepth'', QDouble),
             (''InitDepth'', QDouble), (''SurDepth'', QDouble), (''Aponded'', QDouble)] \<and>
      parameterAsSink canceling_host
        [(''Name'', QString), (''Elevation'', QDouble), (''MaxDepth'', QDouble),
         (''InitDepth'', QDouble), (''SurDepth'', QDouble), (''Aponded'', QDouble)] =
        Some ''partial_out''"
    by (simp add: example_registry_def junctions_fields_def type_map_def canceling_host_def
        sink_named_def)
  have cancel: "(0::nat) < 3 \<and> 3 \<le> length (getFeatures ten_layer) \<and>
      (\<forall>j. Suc j < 3 \<longrightarrow> \<not> isCanceled canceling_host j) \<and> isCanceled canceling_host (3 - 1)"
    by (simp add: ten_layer_def canceling_host_def canceled_from_def)
  from C9_geometry_copied[where reg = example_registry and sec = "''JUNCTIONS''"
      and w = empty_world, OF L2]
  obtain outs2 where outs2: "sink (snd (processAlgorithm example_registry ''JUNCTIONS'' canceling_host
        empty_world)) = sink empty_world @ outs2"
    and three: "map o_geometry outs2 = map f_geometry (take 3 (getFeatures ten_layer))"
    using ready2 cancel by blast
  from outs2 three
  have part: "map o_geometry (sink (snd (processAlgorithm example_registry ''JUNCTIONS''
      canceling_host empty_world))) = map f_geometry (take 3 (getFeatures ten_layer))"
    by (simp add: empty_world_def)
  from feats rain part show ?thesis by simp
qed

text \<open>
  C10: no run ever raises \<open>ZeroDivisionError\<close>, since the progress quotient is only
  formed when the feature count is not zero; and a run on a layer that delivers no
  feature writes nothing, reports no progress and returns the destination id.
\<close>

theorem C10_no_features_no_division:
  "fst (processAlgorithm reg sec h w) \<noteq> Inl ZeroDivisionError \<and>
   (parameterAsVectorLayer h = Some L \<and> getFeatures L = [] \<and> reg sec = Some tfd \<and>
    build_target_fields tfd = Inr tf \<and> parameterAsSink h tf = Some dest \<longrightarrow>
      processAlgorithm reg sec h w = (Inr dest, w))"
proof -
  have "fst (processAlgorithm reg sec h w) \<noteq> Inl ZeroDivisionError"
    using process_error_kind[of reg sec h w ZeroDivisionError "snd (processAlgorithm reg sec h w)"]
    by (metis error.distinct(3) error.distinct(5) prod.collapse)
  moreover have "processAlgorithm reg sec h w = (Inr dest, w)"
    if "parameterAsVectorLayer h = Some L" "getFeatures L = []" "reg sec = Some tfd"
      "build_target_fields tfd = Inr tf" "parameterAsSink h tf = Some dest"
    using process_setup_ok[where reg = reg and sec = sec, OF that(1,3,4,5), of w] that(2)
    by auto
  ultimately show ?thesis by blast
qed

theorem C10_no_features_no_division_witness:
  "getFeatures empty_layer = [] \<and> featureCount empty_layer = 0 \<and>
   processAlgorithm example_registry ''JUNCTIONS'' empty_layer_host empty_world =
     (Inr ''junctions_out'', empty_world)"
proof -
  have b: "parameterAsVectorLayer empty_layer_host = Some empty_layer \<and>
      getFeatures empty_layer = [] \<and>
      example_registry ''JUNCTIONS'' = Some junctions_fields \<and>
      build_target_fields junctions_fields =
        Inr [(''Name'', QString), (''Elevation'', QDouble), (''MaxDepth'', QDouble),
             (''InitDepth'', QDouble), (''SurDepth'', QDouble), (''Aponded'', QDouble)] \<and>
      parameterAsSink empty_layer_host
        [(''Name'', QString), (''Elevation'', QDouble), (''MaxDepth'', QDouble),
         (''InitDepth'', QDouble), (''SurDepth'', QDouble), (''Aponded'', QDouble)] =
        Some ''junctions_out''"
    by (simp add: empty_layer_host_def empty_layer_def example_registry_def junctions_fields_def
        type_map_def sink_named_def)
  from C10_no_features_no_division[where reg = example_registry and sec = "''JUNCTIONS''"
      and w = empty_world, THEN conjunct2, rule_format, OF b]
  show ?thesis by (simp add: empty_layer_def)
qed

end
